theory Spec2Isabelle
  imports Complex_Main "HOL-Library.Sublist"
begin

section \<open>Values of the request: parsed JSON as Python sees it\<close>

text \<open>
  \<^verbatim>\<open>request.get_json()\<close> hands the handler a Python value built from JSON:
  \<^verbatim>\<open>None\<close>, a bool, an int, a float, a str, a list or a dict. A dict is kept as the
  list of its items; a key is looked up with \<open>map_of\<close>.
\<close>

datatype json =
    JNull
  | JBool bool
  | JInt int
  | JFloat rat
  | JStr string
  | JArr "json list"
  | JObj "(string \<times> json) list"

type_synonym bytes = "char list"

text \<open>
  The exceptions the handler can meet. The handler only ever formats an exception into
  a message, so an exception raised inside a library is kept as the text of its
  \<^verbatim>\<open>str()\<close>; the ones raised by the interpreter keep the operation and the name of
  the offending type. \<open>Base64LengthError n\<close> is the \<^verbatim>\<open>binascii.Error\<close> whose text is
  \<^verbatim>\<open>Invalid base64-encoded string: number of data characters (n) cannot be 1 more than a multiple of 4\<close>.
\<close>

datatype exn =
    AttributeError string string
  | TypeError string string
  | KeyError string
  | ValueError string
  | OSError string
  | Base64LengthError nat
  | LibraryError string

text \<open>
  A message is an f-string: literal pieces, formatted values and formatted exceptions.
  \<^verbatim>\<open>str(e)\<close> is the message with the single piece \<open>E e\<close>.
\<close>

datatype piece = S string | V json | E exn

text \<open>
  The two bodies the handler passes to \<^verbatim>\<open>jsonify\<close>: \<^verbatim>\<open>{"error": message}\<close> and the
  list of \<^verbatim>\<open>{"fileName": .., "conversionResult": ..}\<close> objects. A response is the pair
  (body, status) that the view returns.
\<close>

datatype body = Error "piece list" | Results "(json \<times> string) list"

type_synonym response = "body \<times> nat"

text \<open>How a statement ends: it falls through with a value, returns from the view, or raises.\<close>

datatype 'a flow = Next 'a | Return response | Raise exn

subsection \<open>The Python operations the handler applies to these values\<close>

fun type_name :: "json \<Rightarrow> string" where
  "type_name JNull = ''NoneType''"
| "type_name (JBool _) = ''bool''"
| "type_name (JInt _) = ''int''"
| "type_name (JFloat _) = ''float''"
| "type_name (JStr _) = ''str''"
| "type_name (JArr _) = ''list''"
| "type_name (JObj _) = ''dict''"

fun truthy :: "json \<Rightarrow> bool" where
  "truthy JNull = False"
| "truthy (JBool b) = b"
| "truthy (JInt i) = (i \<noteq> 0)"
| "truthy (JFloat r) = (r \<noteq> 0)"
| "truthy (JStr s) = (s \<noteq> [])"
| "truthy (JArr xs) = (xs \<noteq> [])"
| "truthy (JObj kvs) = (kvs \<noteq> [])"

text \<open>\<^verbatim>\<open>obj.get(key, default)\<close>: only a dict has the method.\<close>

fun py_get :: "json \<Rightarrow> string \<Rightarrow> json \<Rightarrow> exn + json" where
  "py_get (JObj kvs) k d = Inr (case map_of kvs k of None \<Rightarrow> d | Some v \<Rightarrow> v)"
| "py_get v k d = Inl (AttributeError (type_name v) ''get'')"

text \<open>
  \<^verbatim>\<open>key in obj\<close> for a str key: key membership in a dict, element membership in a
  list, substring test in a str, TypeError anywhere else.
\<close>

fun py_in :: "string \<Rightarrow> json \<Rightarrow> exn + bool" where
  "py_in k (JObj kvs) = Inr (map_of kvs k \<noteq> None)"
| "py_in k (JArr xs) = Inr (JStr k \<in> set xs)"
| "py_in k (JStr s) = Inr (sublist k s)"
| "py_in k v = Inl (TypeError ''in'' (type_name v))"

text \<open>\<^verbatim>\<open>obj[key]\<close> for a str key.\<close>

fun py_getitem :: "json \<Rightarrow> string \<Rightarrow> exn + json" where
  "py_getitem (JObj kvs) k = (case map_of kvs k of None \<Rightarrow> Inl (KeyError k) | Some v \<Rightarrow> Inr v)"
| "py_getitem v k = Inl (TypeError ''subscript'' (type_name v))"

text \<open>
  \<^verbatim>\<open>os.path.join(a, b)\<close> of posixpath with a str first argument: an absolute second
  argument replaces the first; a second argument that is not a str raises TypeError.
\<close>

definition path_join :: "string \<Rightarrow> string \<Rightarrow> string" where
  "path_join a b =
     (if b \<noteq> [] \<and> hd b = CHR ''/'' then b
      else if a = [] \<or> last a = CHR ''/'' then a @ b
      else a @ ''/'' @ b)"

fun os_path_join :: "string \<Rightarrow> json \<Rightarrow> exn + string" where
  "os_path_join a (JStr b) = Inr (path_join a b)"
| "os_path_join a v = Inl (TypeError ''join'' (type_name v))"

subsection \<open>\<^verbatim>\<open>base64.b64decode\<close>\<close>

text \<open>
  \<^verbatim>\<open>base64.b64decode(s)\<close> as the handler calls it, without \<^verbatim>\<open>validate\<close>: a str must be
  ASCII and is handed to \<^verbatim>\<open>binascii.a2b_base64\<close> (CPython 3.11), anything else that JSON
  can give raises TypeError. The decoder skips every character outside the alphabet,
  stops at the padding that completes a quad, and raises only when the data characters
  leave a quad unfinished.
\<close>

definition b64_value :: "char \<Rightarrow> nat option" where
  "b64_value c =
     (let n = (of_char c :: nat) in
      if 65 \<le> n \<and> n \<le> 90 then Some (n - 65)
      else if 97 \<le> n \<and> n \<le> 122 then Some (n - 71)
      else if 48 \<le> n \<and> n \<le> 57 then Some (n + 4)
      else if n = 43 then Some 62
      else if n = 47 then Some 63
      else None)"

fun a2b_base64 :: "nat \<Rightarrow> nat \<Rightarrow> nat \<Rightarrow> string \<Rightarrow> bytes \<Rightarrow> exn + bytes" where
  "a2b_base64 quad_pos leftchar pads [] bin_data =
     (if quad_pos = 0 then Inr bin_data
      else if quad_pos = 1 then Inl (Base64LengthError (length bin_data div 3 * 4 + 1))
      else Inl (LibraryError ''Incorrect padding''))"
| "a2b_base64 quad_pos leftchar pads (this_ch # ascii_data) bin_data =
     (if this_ch = CHR ''='' then
        (if quad_pos \<ge> 2 \<and> quad_pos + (pads + 1) \<ge> 4 then Inr bin_data
         else a2b_base64 quad_pos leftchar (if quad_pos \<ge> 2 then pads + 1 else pads)
                ascii_data bin_data)
      else
        (case b64_value this_ch of
           None \<Rightarrow> a2b_base64 quad_pos leftchar pads ascii_data bin_data
         | Some v \<Rightarrow>
             if quad_pos = 0 then a2b_base64 1 v 0 ascii_data bin_data
             else if quad_pos = 1 then
               a2b_base64 2 (v mod 16) 0 ascii_data (bin_data @ [char_of (leftchar * 4 + v div 16)])
             else if quad_pos = 2 then
               a2b_base64 3 (v mod 4) 0 ascii_data (bin_data @ [char_of (leftchar * 16 + v div 4)])
             else
               a2b_base64 0 0 0 ascii_data (bin_data @ [char_of (leftchar * 64 + v)])))"

definition is_ascii :: "string \<Rightarrow> bool" where
  "is_ascii s = (\<forall>c \<in> set s. (of_char c :: nat) < 128)"

definition base64_b64decode :: "json \<Rightarrow> exn + bytes" where
  "base64_b64decode v =
     (case v of
        JStr s \<Rightarrow>
          if is_ascii s then a2b_base64 0 0 0 s []
          else Inl (ValueError ''string argument should contain only ASCII characters'')
      | _ \<Rightarrow> Inl (TypeError ''b64decode'' (type_name v)))"

section \<open>The file system\<close>

text \<open>
  The file system the handler works on: a tree of directories and files without
  symbolic links and without permissions. A node is addressed by the list of its
  components from the root; the root is \<open>[]\<close>.
\<close>

datatype node = Dir | File bytes

type_synonym path = "string list"

type_synonym fs = "path \<Rightarrow> node option"

fun split_path :: "string \<Rightarrow> string list" where
  "split_path [] = [[]]"
| "split_path (c # cs) =
     (if c = CHR ''/'' then [] # split_path cs
      else (case split_path cs of [] \<Rightarrow> [[c]] | x # xs \<Rightarrow> (c # x) # xs))"

definition start_dir :: "path \<Rightarrow> string \<Rightarrow> path" where
  "start_dir cwd s = (if s \<noteq> [] \<and> hd s = CHR ''/'' then [] else cwd)"

text \<open>
  Path resolution: every component is looked up in the directory reached so far, which
  must exist and be a directory; the last component itself need not exist.
\<close>

fun walk :: "fs \<Rightarrow> path \<Rightarrow> string list \<Rightarrow> path option" where
  "walk t cur [] = Some cur"
| "walk t cur (c # cs) =
     (if t cur \<noteq> Some Dir then None
      else if c = [] \<or> c = ''.'' then walk t cur cs
      else if c = ''..'' then walk t (butlast cur) cs
      else walk t (cur @ [c]) cs)"

definition resolve :: "fs \<Rightarrow> path \<Rightarrow> string \<Rightarrow> path option" where
  "resolve t cwd s = walk t (start_dir cwd s) (split_path s)"

definition has_nul :: "string \<Rightarrow> bool" where
  "has_nul s = (CHR 0x00 \<in> set s)"

text \<open>\<^verbatim>\<open>os.path.exists(p)\<close>: never raises.\<close>

definition path_exists :: "path \<Rightarrow> string \<Rightarrow> fs \<Rightarrow> bool" where
  "path_exists cwd s t =
     (if has_nul s then False
      else (case resolve t cwd s of None \<Rightarrow> False | Some p \<Rightarrow> t p \<noteq> None))"

text \<open>
  \<^verbatim>\<open>os.makedirs(p, exist_ok=True)\<close>: the missing directories are created from the left;
  a component that exists as a file stops it, and what was created before stays.
\<close>

fun mkdirs :: "string \<Rightarrow> fs \<Rightarrow> path \<Rightarrow> string list \<Rightarrow> exn option \<times> fs" where
  "mkdirs s t cur [] = (None, t)"
| "mkdirs s t cur (c # cs) =
     (if c = [] \<or> c = ''.'' then mkdirs s t cur cs
      else if c = ''..'' then mkdirs s t (butlast cur) cs
      else (case t (cur @ [c]) of
              None \<Rightarrow> mkdirs s (t(cur @ [c] \<mapsto> Dir)) (cur @ [c]) cs
            | Some Dir \<Rightarrow> mkdirs s t (cur @ [c]) cs
            | Some (File _) \<Rightarrow> (Some (OSError s), t)))"

definition makedirs :: "path \<Rightarrow> string \<Rightarrow> fs \<Rightarrow> exn option \<times> fs" where
  "makedirs cwd s t =
     (if has_nul s then (Some (ValueError s), t)
      else if s = [] then (Some (OSError s), t)
      else mkdirs s t (start_dir cwd s) (split_path s))"

text \<open>
  \<^verbatim>\<open>with open(p, "wb") as f: f.write(data)\<close>: the directory of the file must exist, the
  path must not name a directory; the file then holds exactly the data. The first
  component of the result is the exception raised, if any.
\<close>

definition open_wb :: "path \<Rightarrow> string \<Rightarrow> bytes \<Rightarrow> fs \<Rightarrow> exn option \<times> fs" where
  "open_wb cwd s data t =
     (if has_nul s then (Some (ValueError s), t)
      else (case resolve t cwd s of
              None \<Rightarrow> (Some (OSError s), t)
            | Some p \<Rightarrow>
                (case t p of
                   Some Dir \<Rightarrow> (Some (OSError s), t)
                 | _ \<Rightarrow> (None, t(p \<mapsto> File data)))))"

text \<open>
  \<^verbatim>\<open>shutil.rmtree(p, ignore_errors=True)\<close> when nothing goes wrong: the directory and
  everything below it is gone. On anything that is not a directory the error is ignored
  and nothing changes.
\<close>

definition rmtree_ok :: "path \<Rightarrow> string \<Rightarrow> fs \<Rightarrow> fs" where
  "rmtree_ok cwd s t =
     (if has_nul s then t
      else (case resolve t cwd s of
              None \<Rightarrow> t
            | Some p \<Rightarrow>
                (case t p of
                   Some Dir \<Rightarrow> (\<lambda>q. if prefix p q then None else t q)
                 | _ \<Rightarrow> t)))"

section \<open>The collaborators of the handler\<close>

text \<open>
  The LLM client and the conversion engine are kept as the record of how they were
  constructed: the keyword arguments of \<^verbatim>\<open>OpenAI(**client_kwargs)\<close>, and for
  \<^verbatim>\<open>MarkItDown\<close> either nothing or the client and the model.
\<close>

datatype client = OpenAI "(string \<times> json) list"

datatype engine = MarkItDown "(client \<times> json) option"

text \<open>
  Everything the handler takes from outside the repository: the configured base
  directory, the process's working directory, the identifier \<^verbatim>\<open>str(uuid.uuid4())\<close>
  drawn for this request, the base64 decoder, whether a constructor raises, what the
  engine answers for the file at a path holding given bytes, and what
  \<^verbatim>\<open>shutil.rmtree(.., ignore_errors=True)\<close> leaves behind (it never raises).
\<close>

record env =
  MARKITDOWN_TMPDIR :: string
  cwd :: path
  uuid4 :: string
  b64decode :: "json \<Rightarrow> exn + bytes"
  OpenAI_raises :: "(string \<times> json) list \<Rightarrow> exn option"
  MarkItDown_raises :: "(client \<times> json) option \<Rightarrow> exn option"
  convert :: "engine \<Rightarrow> string \<Rightarrow> bytes \<Rightarrow> exn + string"
  rmtree :: "string \<Rightarrow> fs \<Rightarrow> fs"

section \<open>The views of app.py\<close>

subsection \<open>\<^verbatim>\<open>root\<close>\<close>

text \<open>
  The view returns the str \<^verbatim>\<open>"ok"\<close>; Flask answers a str with status 200. The view is
  given the environment and the file system like the other one, and uses neither.
\<close>

datatype view_result = Plain string | WithStatus response

fun make_response :: "view_result \<Rightarrow> nat \<times> (string + body)" where
  "make_response (Plain s) = (200, Inl s)"
| "make_response (WithStatus (b, st)) = (st, Inr b)"

definition root :: "env \<Rightarrow> fs \<Rightarrow> view_result \<times> fs" where
  "root e t = (Plain ''ok'', t)"

subsection \<open>\<^verbatim>\<open>convert_files\<close>: the choice of the engine (lines 75 to 89)\<close>

definition llm_condition :: "json \<Rightarrow> exn + bool" where
  "llm_condition llm_config =
     (if \<not> truthy llm_config then Inr False
      else (case py_in ''openaiApiKey'' llm_config of
              Inl x \<Rightarrow> Inl x
            | Inr b \<Rightarrow> if \<not> b then Inr False else py_in ''llmModel'' llm_config))"

definition client_kwargs :: "json \<Rightarrow> json \<Rightarrow> exn + (string \<times> json) list" where
  "client_kwargs llm_config openai_api_key =
     (case py_in ''openaiBaseUrl'' llm_config of
        Inl x \<Rightarrow> Inl x
      | Inr b \<Rightarrow>
          if b then
            (case py_getitem llm_config ''openaiBaseUrl'' of
               Inl x \<Rightarrow> Inl x
             | Inr u \<Rightarrow> Inr [(''api_key'', openai_api_key), (''base_url'', u)])
          else Inr [(''api_key'', openai_api_key)])"

definition new_MarkItDown :: "env \<Rightarrow> (client \<times> json) option \<Rightarrow> exn + engine" where
  "new_MarkItDown e a =
     (case MarkItDown_raises e a of Some x \<Rightarrow> Inl x | None \<Rightarrow> Inr (MarkItDown a))"

definition new_OpenAI :: "env \<Rightarrow> (string \<times> json) list \<Rightarrow> exn + client" where
  "new_OpenAI e kw =
     (case OpenAI_raises e kw of Some x \<Rightarrow> Inl x | None \<Rightarrow> Inr (OpenAI kw))"

definition make_engine :: "env \<Rightarrow> json \<Rightarrow> exn + engine" where
  "make_engine e llm_config =
     (case llm_condition llm_config of
        Inl x \<Rightarrow> Inl x
      | Inr c \<Rightarrow>
          if c then
            (case py_getitem llm_config ''openaiApiKey'' of
               Inl x \<Rightarrow> Inl x
             | Inr openai_api_key \<Rightarrow>
                 (case py_getitem llm_config ''llmModel'' of
                    Inl x \<Rightarrow> Inl x
                  | Inr llm_model \<Rightarrow>
                      (case client_kwargs llm_config openai_api_key of
                         Inl x \<Rightarrow> Inl x
                       | Inr kw \<Rightarrow>
                           (case new_OpenAI e kw of
                              Inl x \<Rightarrow> Inl x
                            | Inr cl \<Rightarrow> new_MarkItDown e (Some (cl, llm_model))))))
          else new_MarkItDown e None)"

subsection \<open>\<^verbatim>\<open>convert_files\<close>: one entry of the data array (lines 95 to 128)\<close>

definition process_item ::
  "env \<Rightarrow> engine \<Rightarrow> string \<Rightarrow> json \<Rightarrow> fs \<Rightarrow> (json \<times> string) flow \<times> fs" where
  "process_item e md working_dir item t =
     (case py_get item ''fileName'' JNull of
        Inl x \<Rightarrow> (Raise x, t)
      | Inr file_name \<Rightarrow>
     (case py_get item ''fileContent'' JNull of
        Inl x \<Rightarrow> (Raise x, t)
      | Inr file_content_base64 \<Rightarrow>
     if \<not> truthy file_name \<or> \<not> truthy file_content_base64 then
       (Return (Error [S ''Missing fileName or fileContent''], 500), t)
     else
     (case b64decode e file_content_base64 of
        Inl x \<Rightarrow>
          (Return (Error [S ''Failed to decode base64 for '', V file_name, S '': '', E x], 500), t)
      | Inr file_bytes \<Rightarrow>
     (case os_path_join working_dir file_name of
        Inl x \<Rightarrow> (Raise x, t)
      | Inr file_path \<Rightarrow>
     (case open_wb (cwd e) file_path file_bytes t of
        (Some x, t') \<Rightarrow> (Raise x, t')
      | (None, t') \<Rightarrow>
     (case convert e md file_path file_bytes of
        Inl x \<Rightarrow>
          (Return (Error [S ''Conversion failed for file: '', V file_name,
                          S ''. Error: '', E x], 500), t')
      | Inr conversion_output \<Rightarrow> (Next (file_name, conversion_output), t')))))))"

subsection \<open>\<^verbatim>\<open>convert_files\<close>: the loop over the data array (lines 94 to 128)\<close>

fun process_items ::
  "env \<Rightarrow> engine \<Rightarrow> string \<Rightarrow> json list \<Rightarrow> (json \<times> string) list \<Rightarrow> fs
     \<Rightarrow> (json \<times> string) list flow \<times> fs" where
  "process_items e md working_dir [] results t = (Next results, t)"
| "process_items e md working_dir (item # data) results t =
     (case process_item e md working_dir item t of
        (Raise x, t') \<Rightarrow> (Raise x, t')
      | (Return r, t') \<Rightarrow> (Return r, t')
      | (Next entry, t') \<Rightarrow> process_items e md working_dir data (results @ [entry]) t')"

subsection \<open>\<^verbatim>\<open>convert_files\<close>: the try block, the except clause and the finally clause\<close>

text \<open>
  The try block gives how it ended (\<open>Inr\<close> a returned response, \<open>Inl\<close> an exception
  that left it), the local \<^verbatim>\<open>working_dir\<close> if it was bound, and the
  file system. The argument \<open>payload\<close> is what \<^verbatim>\<open>request.get_json()\<close> did: raise, or
  return a value (\<open>JNull\<close> for \<^verbatim>\<open>None\<close>).
\<close>

definition try_block ::
  "env \<Rightarrow> exn + json \<Rightarrow> fs \<Rightarrow> (exn + response) \<times> string option \<times> fs" where
  "try_block e get_json t =
     (case get_json of
        Inl x \<Rightarrow> (Inl x, None, t)
      | Inr payload \<Rightarrow>
     if payload = JNull then (Inr (Error [S ''No JSON payload provided''], 500), None, t)
     else
     (case py_get payload ''llmConfig'' JNull of
        Inl x \<Rightarrow> (Inl x, None, t)
      | Inr llm_config \<Rightarrow>
     (case py_get payload ''data'' (JArr []) of
        Inl x \<Rightarrow> (Inl x, None, t)
      | Inr data \<Rightarrow>
     (case data of
        JArr items \<Rightarrow>
          if items = [] then
            (Inr (Error [S ''No valid 'data' array provided''], 500), None, t)
          else
            (let unique_id = uuid4 e;
                 working_dir = path_join (MARKITDOWN_TMPDIR e) unique_id
             in case makedirs (cwd e) working_dir t of
                  (Some x, t1) \<Rightarrow> (Inl x, Some working_dir, t1)
                | (None, t1) \<Rightarrow>
                    (case make_engine e llm_config of
                       Inl x \<Rightarrow> (Inl x, Some working_dir, t1)
                     | Inr md \<Rightarrow>
                         (case process_items e md working_dir items [] t1 of
                            (Raise x, t2) \<Rightarrow> (Inl x, Some working_dir, t2)
                          | (Return r, t2) \<Rightarrow> (Inr r, Some working_dir, t2)
                          | (Next results, t2) \<Rightarrow>
                              (Inr (Results results, 200), Some working_dir, t2))))
      | _ \<Rightarrow> (Inr (Error [S ''No valid 'data' array provided''], 500), None, t)))))"

text \<open>The finally clause: the directory is removed when the local is bound and the path exists.\<close>

definition cleanup :: "env \<Rightarrow> string option \<Rightarrow> fs \<Rightarrow> fs" where
  "cleanup e wd t =
     (case wd of
        None \<Rightarrow> t
      | Some working_dir \<Rightarrow>
          if path_exists (cwd e) working_dir t then rmtree e working_dir t else t)"

definition convert_files :: "env \<Rightarrow> exn + json \<Rightarrow> fs \<Rightarrow> response \<times> fs" where
  "convert_files e get_json t =
     (case try_block e get_json t of
        (Inr r, wd, t') \<Rightarrow> (r, cleanup e wd t')
      | (Inl x, wd, t') \<Rightarrow> ((Error [E x], 500), cleanup e wd t'))"

section \<open>Notions used in the statements\<close>

text \<open>Two file systems with the same directories: they differ in files only.\<close>

definition same_dirs :: "fs \<Rightarrow> fs \<Rightarrow> bool" where
  "same_dirs t t' = (\<forall>q. (t q = Some Dir) = (t' q = Some Dir))"

text \<open>A file system is a tree: the root is a directory, and so is the parent of every node.\<close>

definition tree :: "fs \<Rightarrow> bool" where
  "tree t = (t [] = Some Dir \<and> (\<forall>p. t p \<noteq> None \<longrightarrow> t (butlast p) = Some Dir))"

text \<open>The directory of the request (lines 68 and 69).\<close>

definition working_dir :: "env \<Rightarrow> string" where
  "working_dir e = path_join (MARKITDOWN_TMPDIR e) (uuid4 e)"

text \<open>
  The mode of the engine in the words of the specification: enabled with the API key,
  the model and the optional base URL when the configuration is an object holding both
  keys, disabled otherwise.
\<close>

definition llm_mode_spec :: "json \<Rightarrow> (client \<times> json) option" where
  "llm_mode_spec llm_config =
     (case llm_config of
        JObj kvs \<Rightarrow>
          (case (map_of kvs ''openaiApiKey'', map_of kvs ''llmModel'') of
             (Some k, Some m) \<Rightarrow>
               Some (OpenAI ((''api_key'', k) #
                       (case map_of kvs ''openaiBaseUrl'' of
                          None \<Rightarrow> []
                        | Some u \<Rightarrow> [(''base_url'', u)])), m)
           | _ \<Rightarrow> None)
      | _ \<Rightarrow> None)"

text \<open>
  A valid standard base64 string (RFC 4648, section 4): quads of characters of the
  alphabet, the last one possibly ending in one or two padding characters.
\<close>

definition valid_base64 :: "string \<Rightarrow> bool" where
  "valid_base64 s =
     (length s mod 4 = 0 \<and>
      (\<forall>c \<in> set (takeWhile (\<lambda>c. c \<noteq> CHR ''='') s). b64_value c \<noteq> None) \<and>
      dropWhile (\<lambda>c. c \<noteq> CHR ''='') s \<in> {[], ''='', ''==''})"

subsection \<open>A concrete installation, for the instances\<close>

text \<open>
  A file system holding \<^verbatim>\<open>/tmp\<close> and \<^verbatim>\<open>/srv\<close>, the default base directory, the decoder of
  the standard library, constructors that never raise, and an engine that passes plain
  text through.
\<close>

definition fs0 :: fs where
  "fs0 = Map.empty([] \<mapsto> Dir, [''tmp''] \<mapsto> Dir, [''srv''] \<mapsto> Dir)"

definition env0 :: env where
  "env0 = \<lparr>MARKITDOWN_TMPDIR = ''/tmp/'', cwd = [],
           uuid4 = ''123e4567-e89b-42d3-a456-426614174000'',
           b64decode = base64_b64decode,
           OpenAI_raises = (\<lambda>kw. None), MarkItDown_raises = (\<lambda>a. None),
           convert = (\<lambda>md p b. Inr b),
           rmtree = rmtree_ok []\<rparr>"

definition entry :: "string \<Rightarrow> string \<Rightarrow> json" where
  "entry name content = JObj [(''fileName'', JStr name), (''fileContent'', JStr content)]"

definition request :: "json list \<Rightarrow> json" where
  "request items = JObj [(''data'', JArr items)]"

definition two_files :: json where
  "two_files = request [entry ''a.txt'' ''aGVsbG8='', entry ''b.txt'' ''aGk='']"

text \<open>The directory of the request in this installation, and the file system once it exists.\<close>

definition dir0 :: string where
  "dir0 = ''/tmp/123e4567-e89b-42d3-a456-426614174000''"

definition fs1 :: fs where
  "fs1 = fs0([''tmp'', ''123e4567-e89b-42d3-a456-426614174000''] \<mapsto> Dir)"

text \<open>A request that asks for the LLM.\<close>

definition llm_config0 :: json where
  "llm_config0 = JObj [(''openaiApiKey'', JStr ''sk-1''),
                       (''openaiBaseUrl'', JStr ''http://llm.example/v1''),
                       (''llmModel'', JStr ''gpt-4o'')]"

definition llm_request :: json where
  "llm_request = JObj [(''llmConfig'', llm_config0), (''data'', JArr [entry ''a.txt'' ''aGVsbG8=''])]"

text \<open>An installation without an API key in its environment: the client cannot be built from a null key.\<close>

definition env_no_key :: env where
  "env_no_key = env0\<lparr>OpenAI_raises :=
     (\<lambda>kw. if map_of kw ''api_key'' = Some JNull
           then Some (LibraryError ''The api_key client option must be set either by passing api_key to the client or by setting the OPENAI_API_KEY environment variable'')
           else None)\<rparr>"

text \<open>A request whose LLM configuration is a number.\<close>

definition number_request :: json where
  "number_request = JObj [(''llmConfig'', JInt 5), (''data'', JArr [entry ''a.txt'' ''aGVsbG8=''])]"

section \<open>Directories are stable while entries are processed\<close>

lemma same_dirs_refl: "same_dirs t t"
  by (simp add: same_dirs_def)

lemma same_dirs_trans: "same_dirs t t' \<Longrightarrow> same_dirs t' t'' \<Longrightarrow> same_dirs t t''"
  by (simp add: same_dirs_def)

lemma same_dirs_sym: "same_dirs t t' \<Longrightarrow> same_dirs t' t"
  by (simp add: same_dirs_def)

lemma walk_same_dirs: "same_dirs t t' \<Longrightarrow> walk t cur cs = walk t' cur cs"
proof (induction cs arbitrary: cur)
  case Nil
  show ?case by simp
next
  case (Cons c cs)
  from Cons.prems have "(t cur = Some Dir) = (t' cur = Some Dir)"
    by (simp add: same_dirs_def)
  with Cons show ?case by simp
qed

lemma resolve_same_dirs: "same_dirs t t' \<Longrightarrow> resolve t cd s = resolve t' cd s"
  by (simp add: resolve_def walk_same_dirs)

lemma open_wb_same_dirs: "same_dirs t (snd (open_wb cd s d t))"
  by (auto simp: open_wb_def same_dirs_def split: option.splits node.splits)

lemma open_wb_flow:
  assumes "same_dirs t t'"
  shows "fst (open_wb cd s d t) = fst (open_wb cd s d t')"
proof (cases "resolve t cd s")
  case None
  with assms show ?thesis
    by (simp add: open_wb_def resolve_same_dirs [OF assms, symmetric])
next
  case (Some p)
  from assms have "(t p = Some Dir) = (t' p = Some Dir)"
    by (simp add: same_dirs_def)
  with Some show ?thesis
    by (auto simp: open_wb_def resolve_same_dirs [OF assms, symmetric]
        split: option.splits node.splits)
qed

lemma process_item_same_dirs: "same_dirs t (snd (process_item e md wd item t))"
proof -
  have w: "\<And>p d x t'. open_wb (cwd e) p d t = (x, t') \<Longrightarrow> same_dirs t t'"
    using open_wb_same_dirs by (metis snd_conv)
  show ?thesis
    by (auto simp: process_item_def same_dirs_refl split: sum.splits option.splits prod.splits dest: w)
qed

lemma process_item_flow:
  assumes "same_dirs t t'"
  shows "fst (process_item e md wd item t) = fst (process_item e md wd item t')"
proof -
  have "fst (case open_wb (cwd e) p d t of (Some x, u) \<Rightarrow> (Raise x, u) | (None, u) \<Rightarrow> k u)
      = fst (case open_wb (cwd e) p d t' of (Some x, u) \<Rightarrow> (Raise x, u) | (None, u) \<Rightarrow> k' u)"
    if "\<And>u u'. fst (k u) = fst (k' u')" for p d and k k' :: "fs \<Rightarrow> (json \<times> string) flow \<times> fs"
  proof -
    have "fst (open_wb (cwd e) p d t) = fst (open_wb (cwd e) p d t')"
      using assms by (rule open_wb_flow)
    with that show ?thesis
      by (cases "open_wb (cwd e) p d t"; cases "open_wb (cwd e) p d t'")
         (auto split: option.splits)
  qed
  then show ?thesis
    by (simp add: process_item_def split: sum.splits)
qed

section \<open>The loop over the entries\<close>

lemma process_items_same_dirs: "same_dirs t (snd (process_items e md wd items acc t))"
proof (induction items arbitrary: acc t)
  case Nil
  show ?case by (simp add: same_dirs_refl)
next
  case (Cons item items)
  obtain f t' where step: "process_item e md wd item t = (f, t')"
    by (cases "process_item e md wd item t")
  have a: "same_dirs t t'"
    using process_item_same_dirs [of t e md wd item] step by simp
  show ?case
  proof (cases f)
    case (Next entry)
    have "same_dirs t' (snd (process_items e md wd items (acc @ [entry]) t'))"
      by (rule Cons.IH)
    with a have "same_dirs t (snd (process_items e md wd items (acc @ [entry]) t'))"
      by (rule same_dirs_trans)
    with step Next show ?thesis by simp
  next
    case (Return r)
    with step a show ?thesis by simp
  next
    case (Raise x)
    with step a show ?thesis by simp
  qed
qed

lemma process_item_Return:
  "process_item e md wd item t = (Return r, t') \<Longrightarrow> \<exists>m. r = (Error m, 500)"
  by (auto simp: process_item_def split: sum.splits option.splits prod.splits if_splits)

lemma process_items_Return:
  "process_items e md wd items acc t = (Return r, t') \<Longrightarrow> \<exists>m. r = (Error m, 500)"
proof (induction items arbitrary: acc t)
  case Nil
  then show ?case by simp
next
  case (Cons item items)
  obtain f t1 where step: "process_item e md wd item t = (f, t1)"
    by (cases "process_item e md wd item t")
  show ?case
  proof (cases f)
    case (Next entry)
    with step Cons.prems have "process_items e md wd items (acc @ [entry]) t1 = (Return r, t')"
      by simp
    then show ?thesis by (rule Cons.IH)
  next
    case (Return r')
    with step Cons.prems have "r' = r" by simp
    with step Return show ?thesis using process_item_Return by blast
  next
    case (Raise x)
    with step Cons.prems show ?thesis by simp
  qed
qed

text \<open>An entry that cannot be processed keeps the loop from completing.\<close>

lemma process_items_not_Next:
  assumes "item \<in> set items"
    and "\<forall>r. fst (process_item e md wd item t0) \<noteq> Next r"
    and "same_dirs t0 t"
  shows "fst (process_items e md wd items acc t) \<noteq> Next rs"
  using assms
proof (induction items arbitrary: acc t)
  case Nil
  then show ?case by simp
next
  case (Cons a items)
  obtain f t1 where step: "process_item e md wd a t = (f, t1)"
    by (cases "process_item e md wd a t")
  have d: "same_dirs t0 t1"
    using process_item_same_dirs [of t e md wd a] step Cons.prems(3)
    by (auto intro: same_dirs_trans)
  show ?case
  proof (cases f)
    case (Next entry)
    have "a \<noteq> item"
    proof
      assume "a = item"
      with step Next have "fst (process_item e md wd item t) = Next entry" by simp
      moreover have "fst (process_item e md wd item t0) = fst (process_item e md wd item t)"
        using Cons.prems(3) by (rule process_item_flow)
      ultimately show False using Cons.prems(2) by simp
    qed
    with Cons.prems(1) have "item \<in> set items" by simp
    then have "fst (process_items e md wd items (acc @ [entry]) t1) \<noteq> Next rs"
      using Cons.prems(2) d by (rule Cons.IH)
    with step Next show ?thesis by simp
  next
    case (Return r)
    with step show ?thesis by simp
  next
    case (Raise x)
    with step show ?thesis by simp
  qed
qed

text \<open>When no entry makes the handler return, the loop does not return either.\<close>

lemma process_items_no_Return:
  assumes "\<forall>item \<in> set items. \<forall>r. fst (process_item e md wd item t0) \<noteq> Return r"
    and "same_dirs t0 t"
  shows "fst (process_items e md wd items acc t) \<noteq> Return r"
  using assms
proof (induction items arbitrary: acc t)
  case Nil
  then show ?case by simp
next
  case (Cons a items)
  obtain f t1 where step: "process_item e md wd a t = (f, t1)"
    by (cases "process_item e md wd a t")
  have d: "same_dirs t0 t1"
    using process_item_same_dirs [of t e md wd a] step Cons.prems(2)
    by (auto intro: same_dirs_trans)
  have fl: "fst (process_item e md wd a t0) = f"
    using process_item_flow [OF Cons.prems(2), of e md wd a] step by simp
  show ?case
  proof (cases f)
    case (Next entry)
    from Cons.prems(1) have "\<forall>item \<in> set items. \<forall>r. fst (process_item e md wd item t0) \<noteq> Return r"
      by simp
    from Cons.IH [OF this d, of "acc @ [entry]"] step Next show ?thesis by simp
  next
    case (Return r')
    with fl Cons.prems(1) show ?thesis by simp
  next
    case (Raise x)
    with step show ?thesis by simp
  qed
qed

text \<open>Entries after one that cannot be processed are never looked at.\<close>

lemma process_items_stops:
  assumes "\<forall>r. fst (process_item e md wd bad t0) \<noteq> Next r"
    and "same_dirs t0 t"
  shows "process_items e md wd (pre @ bad # post) acc t = process_items e md wd (pre @ [bad]) acc t"
  using assms
proof (induction pre arbitrary: acc t)
  case Nil
  have "fst (process_item e md wd bad t0) = fst (process_item e md wd bad t)"
    using Nil.prems(2) by (rule process_item_flow)
  with Nil.prems(1) have "\<forall>r. fst (process_item e md wd bad t) \<noteq> Next r" by simp
  then show ?case
    by (cases "process_item e md wd bad t") (auto split: flow.splits)
next
  case (Cons a pre)
  obtain f t1 where step: "process_item e md wd a t = (f, t1)"
    by (cases "process_item e md wd a t")
  have d: "same_dirs t0 t1"
    using process_item_same_dirs [of t e md wd a] step Cons.prems(2)
    by (auto intro: same_dirs_trans)
  show ?case
  proof (cases f)
    case (Next entry)
    with step Cons.IH [OF Cons.prems(1) d] show ?thesis by simp
  next
    case (Return r)
    with step show ?thesis by simp
  next
    case (Raise x)
    with step show ?thesis by simp
  qed
qed


text \<open>What a processed entry contributes.\<close>

lemma process_item_Next:
  assumes "fst (process_item e md wd item t) = Next r"
  shows "\<exists>name content data.
           py_get item ''fileName'' JNull = Inr (JStr name) \<and> name \<noteq> [] \<and>
           py_get item ''fileContent'' JNull = Inr content \<and> truthy content \<and>
           b64decode e content = Inr data \<and>
           convert e md (path_join wd name) data = Inr (snd r) \<and>
           fst r = JStr name"
proof -
  from assms obtain fn where fn: "py_get item ''fileName'' JNull = Inr fn"
    by (auto simp: process_item_def split: sum.splits)
  from assms fn obtain content where c: "py_get item ''fileContent'' JNull = Inr content"
    by (auto simp: process_item_def split: sum.splits)
  from assms fn c have tr: "truthy fn" "truthy content"
    by (auto simp: process_item_def split: if_splits)
  from assms fn c tr obtain data where dat: "b64decode e content = Inr data"
    by (auto simp: process_item_def split: sum.splits)
  from assms fn c tr dat obtain p where p: "os_path_join wd fn = Inr p"
    by (auto simp: process_item_def split: sum.splits)
  then obtain name where name: "fn = JStr name" "p = path_join wd name"
    by (cases fn) auto
  from assms fn c tr dat p have "convert e md p data = Inr (snd r) \<and> fst r = fn"
    by (auto simp: process_item_def split: sum.splits option.splits prod.splits)
  with fn c tr dat name show ?thesis by auto
qed

section \<open>Creating the working directory\<close>

lemma mkdirs_keeps_dirs:
  "mkdirs s t cur cs = (r, t') \<Longrightarrow> t q = Some Dir \<Longrightarrow> t' q = Some Dir"
proof (induction s t cur cs rule: mkdirs.induct)
  case (1 s t cur)
  then show ?case by simp
next
  case (2 s t cur c cs)
  show ?case
  proof (cases "c = [] \<or> c = ''.''")
    case True
    with "2.prems" "2.IH"(1) show ?thesis by simp
  next
    case False
    note nodot = this
    show ?thesis
    proof (cases "c = ''..''")
      case True
      with nodot "2.prems" "2.IH"(2) show ?thesis by simp
    next
      case False
      show ?thesis
      proof (cases "t (cur @ [c])")
        case None
        with nodot False "2.prems"(1)
        have m: "mkdirs s (t(cur @ [c] \<mapsto> Dir)) (cur @ [c]) cs = (r, t')"
          by simp
        from "2.prems"(2) have "(t(cur @ [c] \<mapsto> Dir)) q = Some Dir"
          by simp
        with "2.IH"(3) [OF nodot False None m] show ?thesis .
      next
        case (Some n)
        show ?thesis
        proof (cases n)
          case Dir
          with Some nodot False "2.prems"(1) have m: "mkdirs s t (cur @ [c]) cs = (r, t')"
            by simp
          from "2.IH"(4) [OF nodot False Some Dir m "2.prems"(2)] show ?thesis .
        next
          case (File b)
          with Some nodot False "2.prems" show ?thesis by simp
        qed
      qed
    qed
  qed
qed

lemma tree_mkdir: "tree t \<Longrightarrow> t cur = Some Dir \<Longrightarrow> t (cur @ [c]) = None \<Longrightarrow> tree (t(cur @ [c] \<mapsto> Dir))"
  by (auto simp: tree_def)

lemma tree_parent: "tree t \<Longrightarrow> t cur = Some Dir \<Longrightarrow> t (butlast cur) = Some Dir"
  by (auto simp: tree_def)

lemma mkdirs_walk:
  "tree t \<Longrightarrow> t cur = Some Dir \<Longrightarrow> mkdirs s t cur cs = (None, t')
     \<Longrightarrow> \<exists>p. walk t' cur cs = Some p \<and> t' p = Some Dir"
proof (induction s t cur cs rule: mkdirs.induct)
  case (1 s t cur)
  then show ?case by simp
next
  case (2 s t cur c cs)
  have cur': "t' cur = Some Dir"
    using mkdirs_keeps_dirs [OF "2.prems"(3) "2.prems"(2)] .
  show ?case
  proof (cases "c = [] \<or> c = ''.''")
    case True
    with "2.prems" have "mkdirs s t cur cs = (None, t')" by simp
    from "2.IH"(1) [OF True "2.prems"(1,2) this] cur' True show ?thesis by simp
  next
    case False
    note nodot = this
    show ?thesis
    proof (cases "c = ''..''")
      case True
      with nodot "2.prems" have m: "mkdirs s t (butlast cur) cs = (None, t')" by simp
      have "t (butlast cur) = Some Dir"
        using "2.prems"(1,2) by (rule tree_parent)
      from "2.IH"(2) [OF nodot True "2.prems"(1) this m] cur' True nodot show ?thesis by simp
    next
      case False
      show ?thesis
      proof (cases "t (cur @ [c])")
        case None
        with nodot False "2.prems" have m: "mkdirs s (t(cur @ [c] \<mapsto> Dir)) (cur @ [c]) cs = (None, t')"
          by simp
        have tr: "tree (t(cur @ [c] \<mapsto> Dir))"
          using "2.prems"(1,2) None by (rule tree_mkdir)
        from "2.IH"(3) [OF nodot False None tr _ m] cur' nodot False show ?thesis by simp
      next
        case (Some n)
        show ?thesis
        proof (cases n)
          case Dir
          with Some nodot False "2.prems" have m: "mkdirs s t (cur @ [c]) cs = (None, t')"
            by simp
          from "2.IH"(4) [OF nodot False Some Dir "2.prems"(1) _ m] Some Dir cur' nodot False
          show ?thesis by simp
        next
          case (File b)
          with Some nodot False "2.prems" show ?thesis by simp
        qed
      qed
    qed
  qed
qed

lemma makedirs_resolves:
  assumes "tree t" and "t c = Some Dir" and "makedirs c s t = (None, t')"
  shows "\<not> has_nul s \<and> (\<exists>p. resolve t' c s = Some p \<and> t' p = Some Dir)"
proof -
  from assms(3) have n: "\<not> has_nul s" and m: "mkdirs s t (start_dir c s) (split_path s) = (None, t')"
    by (auto simp: makedirs_def split: if_splits)
  from assms(1,2) have "t (start_dir c s) = Some Dir"
    by (simp add: start_dir_def tree_def)
  from mkdirs_walk [OF assms(1) this m] n show ?thesis
    by (simp add: resolve_def)
qed

section \<open>The handler once the request has passed validation\<close>

lemma try_block_valid:
  assumes "py_get payload ''llmConfig'' JNull = Inr llm_config"
    and "py_get payload ''data'' (JArr []) = Inr (JArr items)"
    and "items \<noteq> []"
  shows "try_block e (Inr payload) t =
    (case makedirs (cwd e) (working_dir e) t of
       (Some x, t1) \<Rightarrow> (Inl x, Some (working_dir e), t1)
     | (None, t1) \<Rightarrow>
         (case make_engine e llm_config of
            Inl x \<Rightarrow> (Inl x, Some (working_dir e), t1)
          | Inr md \<Rightarrow>
              (case process_items e md (working_dir e) items [] t1 of
                 (Raise x, t2) \<Rightarrow> (Inl x, Some (working_dir e), t2)
               | (Return r, t2) \<Rightarrow> (Inr r, Some (working_dir e), t2)
               | (Next results, t2) \<Rightarrow>
                   (Inr (Results results, 200), Some (working_dir e), t2))))"
proof -
  from assms(1) have "payload \<noteq> JNull" by auto
  with assms show ?thesis
    unfolding working_dir_def by (simp add: try_block_def Let_def)
qed

text \<open>The response is then decided by the loop.\<close>

lemma response_valid:
  assumes "py_get payload ''llmConfig'' JNull = Inr llm_config"
    and "py_get payload ''data'' (JArr []) = Inr (JArr items)"
    and "items \<noteq> []"
    and "makedirs (cwd e) (working_dir e) t = (None, t1)"
    and "make_engine e llm_config = Inr md"
  shows "fst (convert_files e (Inr payload) t) =
           (case fst (process_items e md (working_dir e) items [] t1) of
              Next results \<Rightarrow> (Results results, 200)
            | Return r \<Rightarrow> r
            | Raise x \<Rightarrow> (Error [E x], 500))"
proof -
  obtain f t2 where l: "process_items e md (working_dir e) items [] t1 = (f, t2)"
    by (cases "process_items e md (working_dir e) items [] t1")
  show ?thesis
    unfolding convert_files_def try_block_valid [OF assms(1,2,3)]
    using assms(4,5) l by (cases f) simp_all
qed

text \<open>A request that passes validation and does not reach the loop is answered by the except clause.\<close>

lemma py_get_object: "py_get payload k d = Inr v \<Longrightarrow> \<exists>c. py_get payload ''llmConfig'' JNull = Inr c"
  by (cases payload) simp_all

lemma response_setup_raises:
  assumes "py_get payload ''llmConfig'' JNull = Inr llm_config"
    and "py_get payload ''data'' (JArr []) = Inr (JArr items)"
    and "items \<noteq> []"
  shows "(makedirs (cwd e) (working_dir e) t = (Some x, t1)
            \<longrightarrow> fst (convert_files e (Inr payload) t) = (Error [E x], 500)) \<and>
         (makedirs (cwd e) (working_dir e) t = (None, t1) \<and> make_engine e llm_config = Inl x
            \<longrightarrow> fst (convert_files e (Inr payload) t) = (Error [E x], 500))"
  unfolding convert_files_def try_block_valid [OF assms]
  by simp

text \<open>Either the loop is reached, or the handler has answered with the exception that kept it from it.\<close>

lemma reached_or_raised:
  assumes "py_get payload ''llmConfig'' JNull = Inr llm_config"
    and "py_get payload ''data'' (JArr []) = Inr (JArr items)"
    and "items \<noteq> []"
  shows "(\<exists>x. fst (convert_files e (Inr payload) t) = (Error [E x], 500)) \<or>
         (\<exists>t1 md. makedirs (cwd e) (working_dir e) t = (None, t1) \<and> make_engine e llm_config = Inr md)"
proof -
  obtain r t1 where m: "makedirs (cwd e) (working_dir e) t = (r, t1)"
    by (cases "makedirs (cwd e) (working_dir e) t")
  show ?thesis
  proof (cases r)
    case (Some x)
    with m response_setup_raises [OF assms, of e t x t1] show ?thesis by blast
  next
    case None
    show ?thesis
    proof (cases "make_engine e llm_config")
      case (Inl x)
      with m None response_setup_raises [OF assms, of e t x t1] show ?thesis by blast
    next
      case (Inr md)
      with m None show ?thesis by blast
    qed
  qed
qed

section \<open>The liveness view\<close>

text \<open>
  Claim C8. Every GET request to \<^verbatim>\<open>/\<close> is answered with status 200 and the body
  \<^verbatim>\<open>ok\<close>, whatever the configuration and the file system are, and the view changes
  nothing.
\<close>

theorem root_ok:
  "make_response (fst (root e t)) = (200, Inl ''ok'') \<and> snd (root e t) = t"
  by (simp add: root_def)

theorem root_ok_witness:
  "make_response (fst (root env0 fs0)) = (200, Inl ''ok'') \<and> snd (root env0 fs0) = fs0"
  using root_ok [of env0 fs0] by simp

section \<open>Requests that fail validation\<close>

text \<open>
  Claim C6, as amended. When \<^verbatim>\<open>request.get_json()\<close> gives \<^verbatim>\<open>None\<close> (the test of line 56),
  the handler answers with status 500 and the message \<^verbatim>\<open>No JSON payload provided\<close>. When
  \<^verbatim>\<open>request.get_json()\<close> raises instead, which is what Flask does for a body that does not
  parse as JSON, the exception reaches the except clause of line 132: the status is 500
  as well, and the message is the text of the exception. In both cases the file system is
  left as it was.
\<close>

theorem no_json_payload:
  "convert_files e (Inr JNull) t = ((Error [S ''No JSON payload provided''], 500), t) \<and>
   convert_files e (Inl x) t = ((Error [E x], 500), t)"
  by (simp add: convert_files_def try_block_def cleanup_def)

theorem no_json_payload_witness:
  "convert_files env0 (Inr JNull) fs0 = ((Error [S ''No JSON payload provided''], 500), fs0) \<and>
   convert_files env0 (Inl (LibraryError ''400 Bad Request'')) fs0
     = ((Error [E (LibraryError ''400 Bad Request'')], 500), fs0)"
  using no_json_payload [of env0 fs0 "LibraryError ''400 Bad Request''"] by simp

text \<open>
  A body that does not parse makes \<^verbatim>\<open>request.get_json()\<close> raise BadRequest, and the message
  of the answer is then not \<^verbatim>\<open>No JSON payload provided\<close>.
\<close>

theorem no_json_payload_counterexample:
  "fst (convert_files env0 (Inl (LibraryError ''400 Bad Request'')) fs0)
     = (Error [E (LibraryError ''400 Bad Request'')], 500) \<and>
   fst (convert_files env0 (Inl (LibraryError ''400 Bad Request'')) fs0)
     \<noteq> (Error [S ''No JSON payload provided''], 500)"
  by (simp add: convert_files_def try_block_def cleanup_def)

text \<open>
  Claim C3, as amended. When the parsed body is a JSON object that has no \<^verbatim>\<open>data\<close> field,
  or whose \<^verbatim>\<open>data\<close> is not a list, or whose \<^verbatim>\<open>data\<close> is the empty list, the handler
  answers with status 500 and \<^verbatim>\<open>No valid 'data' array provided\<close>. The answer is the same
  in every environment and the file system is returned unchanged: no directory is
  created and the engine is never asked.
\<close>

theorem no_data_array:
  assumes "map_of kvs ''data'' = None \<or>
           (\<exists>d. map_of kvs ''data'' = Some d \<and> (\<forall>items. d \<noteq> JArr items)) \<or>
           map_of kvs ''data'' = Some (JArr [])"
  shows "convert_files e (Inr (JObj kvs)) t =
           ((Error [S ''No valid 'data' array provided''], 500), t)"
proof -
  from assms have "try_block e (Inr (JObj kvs)) t =
      (Inr (Error [S ''No valid 'data' array provided''], 500), None, t)"
    by (auto simp: try_block_def split: json.splits)
  then show ?thesis
    by (simp add: convert_files_def cleanup_def)
qed

theorem no_data_array_witness:
  "map_of [(''data'', JArr [])] ''data'' = Some (JArr []) \<and>
   convert_files env0 (Inr (JObj [(''data'', JArr [])])) fs0 =
     ((Error [S ''No valid 'data' array provided''], 500), fs0)"
proof -
  have h: "map_of [(''data'', JArr [])] ''data'' = Some (JArr [])" by simp
  then have "map_of [(''data'', JArr [])] ''data'' = None \<or>
           (\<exists>d. map_of [(''data'', JArr [])] ''data'' = Some d \<and> (\<forall>items. d \<noteq> JArr items)) \<or>
           map_of [(''data'', JArr [])] ''data'' = Some (JArr [])" by simp
  from no_data_array [OF this, of env0 fs0] h show ?thesis by simp
qed

text \<open>
  A parsed body that is not an object has no \<^verbatim>\<open>data\<close> field either, and is answered
  otherwise: for a list, \<^verbatim>\<open>payload.get\<close> (line 60) raises AttributeError and the except
  clause answers with its text.
\<close>

theorem no_data_array_counterexample:
  "convert_files env0 (Inr (JArr [])) fs0 = ((Error [E (AttributeError ''list'' ''get'')], 500), fs0) \<and>
   fst (convert_files env0 (Inr (JArr [])) fs0) \<noteq> (Error [S ''No valid 'data' array provided''], 500)"
  by (simp add: convert_files_def try_block_def cleanup_def)


section \<open>Evaluation in the concrete installation\<close>

lemma decode_hello: "base64_b64decode (JStr ''aGVsbG8='') = Inr ''hello''"
  by code_simp

lemma decode_hi: "base64_b64decode (JStr ''aGk='') = Inr ''hi''"
  by code_simp

lemma decode_abc: "base64_b64decode (JStr ''abc'') = Inl (LibraryError ''Incorrect padding'')"
  by code_simp

lemma working_dir_env0: "working_dir env0 = dir0"
  by (simp add: working_dir_def env0_def path_join_def dir0_def)

lemma split_dir0: "split_path dir0 = [[], ''tmp'', ''123e4567-e89b-42d3-a456-426614174000'']"
  by (simp add: dir0_def)

lemma makedirs_env0: "makedirs (cwd env0) (working_dir env0) fs0 = (None, fs1)"
  by (simp add: working_dir_env0 makedirs_def split_dir0 start_dir_def)
     (simp add: dir0_def has_nul_def env0_def fs0_def fs1_def)

lemma plain_env0: "make_engine env0 JNull = Inr (MarkItDown None)"
  by (simp add: make_engine_def llm_condition_def new_MarkItDown_def env0_def)


lemma get_llmConfig_request: "py_get (request items) ''llmConfig'' JNull = Inr JNull"
  by (simp add: request_def)

lemma get_data_request: "py_get (request items) ''data'' (JArr []) = Inr (JArr items)"
  by (simp add: request_def)

lemma item_a_txt:
  "fst (process_item env0 (MarkItDown None) dir0 (entry ''a.txt'' ''aGVsbG8='') fs1)
     = Next (JStr ''a.txt'', ''hello'')"
  by (simp add: process_item_def entry_def env0_def decode_hello decode_hi decode_abc path_join_def dir0_def
      open_wb_def has_nul_def resolve_def start_dir_def fs1_def fs0_def)


section \<open>Full success\<close>



section \<open>All or nothing\<close>

text \<open>The three ways an entry fails that the handler names, and the answer it gives.\<close>

lemma process_item_missing:
  assumes "py_get item ''fileName'' JNull = Inr fn"
    and "py_get item ''fileContent'' JNull = Inr fc"
    and "\<not> truthy fn \<or> \<not> truthy fc"
  shows "process_item e md wd item t = (Return (Error [S ''Missing fileName or fileContent''], 500), t)"
  using assms by (auto simp: process_item_def)

lemma process_item_decode:
  assumes "py_get item ''fileName'' JNull = Inr fn"
    and "py_get item ''fileContent'' JNull = Inr fc"
    and "truthy fn" and "truthy fc"
    and "b64decode e fc = Inl x"
  shows "process_item e md wd item t =
     (Return (Error [S ''Failed to decode base64 for '', V fn, S '': '', E x], 500), t)"
  using assms by (simp add: process_item_def)

lemma process_item_convert:
  assumes "py_get item ''fileName'' JNull = Inr (JStr name)"
    and "py_get item ''fileContent'' JNull = Inr fc"
    and "name \<noteq> []" and "truthy fc"
    and "b64decode e fc = Inr data"
    and "open_wb (cwd e) (path_join wd name) data t = (None, t')"
    and "convert e md (path_join wd name) data = Inl x"
  shows "process_item e md wd item t =
     (Return (Error [S ''Conversion failed for file: '', V (JStr name), S ''. Error: '', E x], 500), t')"
  using assms by (simp add: process_item_def)

text \<open>A request with an entry that cannot be processed is answered with an error object.\<close>

lemma failing_entry_response:
  assumes "py_get payload ''llmConfig'' JNull = Inr llm_config"
    and "py_get payload ''data'' (JArr []) = Inr (JArr items)"
    and "makedirs (cwd e) (working_dir e) t = (None, t1)"
    and "make_engine e llm_config = Inr md"
    and "bad \<in> set items"
    and "\<forall>r. fst (process_item e md (working_dir e) bad t1) \<noteq> Next r"
  shows "\<exists>m. fst (convert_files e (Inr payload) t) = (Error m, 500)"
proof -
  from assms(5) have ne: "items \<noteq> []" by auto
  obtain f t2 where l: "process_items e md (working_dir e) items [] t1 = (f, t2)"
    by (cases "process_items e md (working_dir e) items [] t1")
  have resp: "fst (convert_files e (Inr payload) t) =
           (case f of Next results \<Rightarrow> (Results results, 200) | Return r \<Rightarrow> r
            | Raise x \<Rightarrow> (Error [E x], 500))"
    using response_valid [OF assms(1,2) ne assms(3,4)] l by simp
  show ?thesis
  proof (cases f)
    case (Next rs)
    with process_items_not_Next [OF assms(5,6) same_dirs_refl, of "[]" rs] l
    show ?thesis by simp
  next
    case (Return r)
    with l process_items_Return obtain m where "r = (Error m, 500)" by blast
    with resp Return show ?thesis by simp
  next
    case (Raise x)
    with resp show ?thesis by simp
  qed
qed

text \<open>
  Claim C2. If an entry of the data array fails (whether a field is missing or empty,
  the content does not decode, the engine fails, or anything else keeps it from giving
  a result), the handler answers with status 500 and one error object: no result is
  returned for any file, also not for the entries before it. The loop ends at that
  entry: the entries after it are not processed.
\<close>

theorem first_failure_aborts:
  assumes "py_get payload ''llmConfig'' JNull = Inr llm_config"
    and "py_get payload ''data'' (JArr []) = Inr (JArr items)"
    and "makedirs (cwd e) (working_dir e) t = (None, t1)"
    and "make_engine e llm_config = Inr md"
    and "items = pre @ bad # post"
    and "\<forall>r. fst (process_item e md (working_dir e) bad t1) \<noteq> Next r"
  shows "(\<exists>m. fst (convert_files e (Inr payload) t) = (Error m, 500)) \<and>
         process_items e md (working_dir e) items [] t1
           = process_items e md (working_dir e) (pre @ [bad]) [] t1"
proof -
  from assms(5) have "bad \<in> set items" by simp
  from failing_entry_response [OF assms(1,2,3,4) this assms(6)]
  have "\<exists>m. fst (convert_files e (Inr payload) t) = (Error m, 500)" .
  moreover have "process_items e md (working_dir e) items [] t1
           = process_items e md (working_dir e) (pre @ [bad]) [] t1"
    unfolding assms(5) using assms(6) same_dirs_refl by (rule process_items_stops)
  ultimately show ?thesis by blast
qed

lemma item_bad_txt:
  "fst (process_item env0 (MarkItDown None) dir0 (entry ''b.txt'' ''abc'') fs1)
     = Return (Error [S ''Failed to decode base64 for '', V (JStr ''b.txt''), S '': '',
                      E (LibraryError ''Incorrect padding'')], 500)"
  by (simp add: process_item_def entry_def env0_def decode_hello decode_hi decode_abc)

theorem first_failure_aborts_witness:
  "(\<exists>m. fst (convert_files env0
       (Inr (request [entry ''a.txt'' ''aGVsbG8='', entry ''b.txt'' ''abc'', entry ''c.txt'' ''aGk='']))
       fs0) = (Error m, 500)) \<and>
   process_items env0 (MarkItDown None) (working_dir env0)
       [entry ''a.txt'' ''aGVsbG8='', entry ''b.txt'' ''abc'', entry ''c.txt'' ''aGk=''] [] fs1
     = process_items env0 (MarkItDown None) (working_dir env0)
         [entry ''a.txt'' ''aGVsbG8='', entry ''b.txt'' ''abc''] [] fs1"
proof -
  have h5: "[entry ''a.txt'' ''aGVsbG8='', entry ''b.txt'' ''abc'', entry ''c.txt'' ''aGk='']
      = [entry ''a.txt'' ''aGVsbG8=''] @ entry ''b.txt'' ''abc'' # [entry ''c.txt'' ''aGk='']"
    by simp
  have h6: "\<forall>r. fst (process_item env0 (MarkItDown None) (working_dir env0)
      (entry ''b.txt'' ''abc'') fs1) \<noteq> Next r"
    by (simp add: working_dir_env0 item_bad_txt)
  from first_failure_aborts [OF get_llmConfig_request get_data_request makedirs_env0 plain_env0 h5 h6]
  show ?thesis by simp
qed

section \<open>Cleanup of the working directory\<close>

lemma fields_rmtree:
  "b64decode (e\<lparr>rmtree := r\<rparr>) = b64decode e"
  "cwd (e\<lparr>rmtree := r\<rparr>) = cwd e"
  "convert (e\<lparr>rmtree := r\<rparr>) = convert e"
  "OpenAI_raises (e\<lparr>rmtree := r\<rparr>) = OpenAI_raises e"
  "MarkItDown_raises (e\<lparr>rmtree := r\<rparr>) = MarkItDown_raises e"
  "MARKITDOWN_TMPDIR (e\<lparr>rmtree := r\<rparr>) = MARKITDOWN_TMPDIR e"
  "uuid4 (e\<lparr>rmtree := r\<rparr>) = uuid4 e"
  by simp_all

lemma process_item_rmtree: "process_item (e\<lparr>rmtree := r\<rparr>) md wd item t = process_item e md wd item t"
  unfolding process_item_def fields_rmtree by (rule refl)

lemma process_items_rmtree:
  "process_items (e\<lparr>rmtree := r\<rparr>) md wd items acc t = process_items e md wd items acc t"
  by (induction items arbitrary: acc t)
     (simp_all add: process_item_rmtree split: prod.splits flow.splits)

lemma make_engine_rmtree: "make_engine (e\<lparr>rmtree := r\<rparr>) c = make_engine e c"
  unfolding make_engine_def new_OpenAI_def new_MarkItDown_def fields_rmtree by (rule refl)

lemma try_block_rmtree: "try_block (e\<lparr>rmtree := r\<rparr>) g t = try_block e g t"
  unfolding try_block_def process_items_rmtree make_engine_rmtree fields_rmtree by (rule refl)

lemma response_rmtree: "fst (convert_files (e\<lparr>rmtree := r\<rparr>) g t) = fst (convert_files e g t)"
  unfolding convert_files_def try_block_rmtree
  by (auto split: prod.splits sum.splits)

lemma try_block_dir:
  assumes "py_get payload ''llmConfig'' JNull = Inr llm_config"
    and "py_get payload ''data'' (JArr []) = Inr (JArr items)"
    and "items \<noteq> []"
    and "makedirs (cwd e) (working_dir e) t = (None, t1)"
  shows "\<exists>r t2. try_block e (Inr payload) t = (r, Some (working_dir e), t2) \<and> same_dirs t1 t2"
proof (cases "make_engine e llm_config")
  case (Inl x)
  with assms(4) show ?thesis
    unfolding try_block_valid [OF assms(1,2,3)] by (simp add: same_dirs_refl)
next
  case (Inr md)
  obtain f t2 where l: "process_items e md (working_dir e) items [] t1 = (f, t2)"
    by (cases "process_items e md (working_dir e) items [] t1")
  have "same_dirs t1 t2"
    using process_items_same_dirs [of t1 e md "working_dir e" items "[]"] l by simp
  with assms(4) Inr l show ?thesis
    unfolding try_block_valid [OF assms(1,2,3)] by (cases f) simp_all
qed

lemma tree_fs0: "tree fs0"
  by (auto simp: tree_def fs0_def)

text \<open>
  Claim C4. For every request that caused the working directory to be created (the body
  passed validation and \<^verbatim>\<open>os.makedirs\<close> succeeded), whatever happens afterwards (the
  engine cannot be built, an entry aborts the batch, an exception reaches the except
  clause, or everything succeeds): when the removal runs without error, the directory and
  everything below it are gone from the file system the handler leaves behind; and
  whatever the removal does instead, errors included, the response is the same.
\<close>

theorem working_dir_removed:
  assumes "py_get payload ''llmConfig'' JNull = Inr llm_config"
    and "py_get payload ''data'' (JArr []) = Inr (JArr items)"
    and "items \<noteq> []"
    and "tree t" and "t (cwd e) = Some Dir"
    and "makedirs (cwd e) (working_dir e) t = (None, t1)"
    and "rmtree e = rmtree_ok (cwd e)"
  shows "(\<exists>p. resolve t1 (cwd e) (working_dir e) = Some p \<and> t1 p = Some Dir \<and>
              (\<forall>q. prefix p q \<longrightarrow> snd (convert_files e (Inr payload) t) q = None)) \<and>
         (\<forall>r. fst (convert_files (e\<lparr>rmtree := r\<rparr>) (Inr payload) t)
                = fst (convert_files e (Inr payload) t))"
proof -
  from makedirs_resolves [OF assms(4,5,6)]
  obtain p where nn: "\<not> has_nul (working_dir e)"
    and p: "resolve t1 (cwd e) (working_dir e) = Some p" and d: "t1 p = Some Dir"
    by blast
  from try_block_dir [OF assms(1,2,3,6)]
  obtain r t2 where tb: "try_block e (Inr payload) t = (r, Some (working_dir e), t2)"
    and sd: "same_dirs t1 t2"
    by blast
  from sd p have p2: "resolve t2 (cwd e) (working_dir e) = Some p"
    by (simp add: resolve_same_dirs)
  from sd d have d2: "t2 p = Some Dir"
    by (simp add: same_dirs_def)
  have "cleanup e (Some (working_dir e)) t2 = (\<lambda>q. if prefix p q then None else t2 q)"
    using nn p2 d2 assms(7) by (simp add: cleanup_def path_exists_def rmtree_ok_def)
  moreover have "snd (convert_files e (Inr payload) t) = cleanup e (Some (working_dir e)) t2"
    using tb by (cases r) (simp_all add: convert_files_def)
  ultimately have "\<forall>q. prefix p q \<longrightarrow> snd (convert_files e (Inr payload) t) q = None"
    by simp
  with p d show ?thesis
    using response_rmtree by blast
qed

theorem working_dir_removed_witness:
  "resolve fs1 (cwd env0) (working_dir env0) = Some [''tmp'', ''123e4567-e89b-42d3-a456-426614174000''] \<and>
   snd (convert_files env0 (Inr two_files) fs0)
     [''tmp'', ''123e4567-e89b-42d3-a456-426614174000''] = None \<and>
   snd (convert_files env0 (Inr two_files) fs0)
     [''tmp'', ''123e4567-e89b-42d3-a456-426614174000'', ''a.txt''] = None \<and>
   fst (convert_files (env0\<lparr>rmtree := (\<lambda>s t. t)\<rparr>) (Inr two_files) fs0)
     = fst (convert_files env0 (Inr two_files) fs0)"
proof -
  have h3: "[entry ''a.txt'' ''aGVsbG8='', entry ''b.txt'' ''aGk=''] \<noteq> []" by simp
  have h5: "fs0 (cwd env0) = Some Dir" by (simp add: env0_def fs0_def)
  have h7: "rmtree env0 = rmtree_ok (cwd env0)" by (simp add: env0_def)
  have r: "resolve fs1 (cwd env0) (working_dir env0)
      = Some [''tmp'', ''123e4567-e89b-42d3-a456-426614174000'']"
    by (simp add: working_dir_env0 resolve_def split_dir0 start_dir_def)
       (simp add: dir0_def fs1_def fs0_def)
  from working_dir_removed [OF get_llmConfig_request get_data_request h3 tree_fs0 h5 makedirs_env0 h7]
  show ?thesis
    unfolding two_files_def r by simp
qed

section \<open>The mode of the engine\<close>

lemma llm_condition_dict:
  "llm_condition (JObj kvs) =
     Inr (map_of kvs ''openaiApiKey'' \<noteq> None \<and> map_of kvs ''llmModel'' \<noteq> None)"
  by (cases kvs) (simp_all add: llm_condition_def)

lemma client_kwargs_dict:
  "client_kwargs (JObj kvs) k =
     Inr ((''api_key'', k) #
          (case map_of kvs ''openaiBaseUrl'' of None \<Rightarrow> [] | Some u \<Rightarrow> [(''base_url'', u)]))"
  by (simp add: client_kwargs_def split: option.splits)

lemma make_engine_dict:
  "make_engine e (JObj kvs) =
     (case llm_mode_spec (JObj kvs) of
        None \<Rightarrow> new_MarkItDown e None
      | Some (OpenAI kw, m) \<Rightarrow>
          (case new_OpenAI e kw of
             Inl x \<Rightarrow> Inl x
           | Inr cl \<Rightarrow> new_MarkItDown e (Some (cl, m))))"
proof (cases "map_of kvs ''openaiApiKey''")
  case None
  then show ?thesis
    by (simp add: make_engine_def llm_condition_dict llm_mode_spec_def)
next
  case k: (Some k)
  show ?thesis
  proof (cases "map_of kvs ''llmModel''")
    case None
    with k show ?thesis
      by (simp add: make_engine_def llm_condition_dict llm_mode_spec_def)
  next
    case (Some m)
    with k show ?thesis
      by (simp add: make_engine_def llm_condition_dict llm_mode_spec_def client_kwargs_dict)
  qed
qed

lemma py_getitem_other:
  "\<forall>kvs. c \<noteq> JObj kvs \<Longrightarrow> py_getitem c k = Inl (TypeError ''subscript'' (type_name c))"
  by (cases c) simp_all

lemma make_engine_other:
  assumes "\<forall>kvs. c \<noteq> JObj kvs"
  shows "make_engine e c =
     (case llm_condition c of
        Inl x \<Rightarrow> Inl x
      | Inr b \<Rightarrow> if b then Inl (TypeError ''subscript'' (type_name c)) else new_MarkItDown e None)"
  unfolding make_engine_def py_getitem_other [OF assms]
  by (simp split: sum.splits)

lemma new_MarkItDown_Inr: "new_MarkItDown e a = Inr md \<Longrightarrow> md = MarkItDown a"
  by (simp add: new_MarkItDown_def split: option.splits)

lemma new_OpenAI_Inr: "new_OpenAI e kw = Inr cl \<Longrightarrow> cl = OpenAI kw"
  by (simp add: new_OpenAI_def split: option.splits)

lemma llm_mode_spec_other: "\<forall>kvs. c \<noteq> JObj kvs \<Longrightarrow> llm_mode_spec c = None"
  by (cases c) (simp_all add: llm_mode_spec_def)

lemma make_engine_Inr:
  assumes "make_engine e c = Inr md"
  shows "md = MarkItDown (llm_mode_spec c)"
proof (cases "\<exists>kvs. c = JObj kvs")
  case True
  then obtain kvs where c: "c = JObj kvs" by blast
  show ?thesis
  proof (cases "llm_mode_spec (JObj kvs)")
    case None
    with assms c show ?thesis
      by (simp add: make_engine_dict new_MarkItDown_Inr)
  next
    case (Some a)
    obtain cl m where a: "a = (cl, m)" by (cases a)
    obtain kw where cl: "cl = OpenAI kw" by (cases cl)
    from assms c Some a cl
    have "(case new_OpenAI e kw of Inl x \<Rightarrow> Inl x
           | Inr cl \<Rightarrow> new_MarkItDown e (Some (cl, m))) = Inr md"
      by (simp add: make_engine_dict)
    then obtain cl' where "new_OpenAI e kw = Inr cl'" and "new_MarkItDown e (Some (cl', m)) = Inr md"
      by (cases "new_OpenAI e kw") simp_all
    then have "md = MarkItDown (Some (OpenAI kw, m))"
      using new_OpenAI_Inr new_MarkItDown_Inr by blast
    with c Some a cl show ?thesis by simp
  qed
next
  case False
  then have n: "\<forall>kvs. c \<noteq> JObj kvs" by blast
  from assms have "new_MarkItDown e None = Inr md"
    unfolding make_engine_other [OF n]
    by (cases "llm_condition c") (simp_all split: if_splits)
  then show ?thesis
    using new_MarkItDown_Inr llm_mode_spec_other [OF n] by simp
qed

lemma make_engine_no_raise:
  assumes "c = JNull \<or> (\<exists>kvs. c = JObj kvs)"
    and "\<forall>kw. OpenAI_raises e kw = None" and "\<forall>a. MarkItDown_raises e a = None"
  shows "make_engine e c = Inr (MarkItDown (llm_mode_spec c))"
proof -
  have m: "\<And>a. new_MarkItDown e a = Inr (MarkItDown a)"
    using assms(3) by (simp add: new_MarkItDown_def)
  have o: "\<And>kw. new_OpenAI e kw = Inr (OpenAI kw)"
    using assms(2) by (simp add: new_OpenAI_def)
  from assms(1) show ?thesis
  proof
    assume "c = JNull"
    then show ?thesis
      by (simp add: make_engine_def llm_condition_def m llm_mode_spec_def)
  next
    assume "\<exists>kvs. c = JObj kvs"
    then obtain kvs where c: "c = JObj kvs" by blast
    show ?thesis
      unfolding c make_engine_dict
      by (simp add: m o split: option.splits prod.splits client.splits)
  qed
qed

lemma llm_condition_falsy: "\<not> truthy c \<Longrightarrow> llm_condition c = Inr False"
  by (simp add: llm_condition_def)

lemma llm_condition_str:
  "llm_condition (JStr s) = Inr (sublist ''openaiApiKey'' s \<and> sublist ''llmModel'' s)"
  by (cases s) (simp_all add: llm_condition_def)

lemma llm_condition_list:
  "llm_condition (JArr xs) = Inr (JStr ''openaiApiKey'' \<in> set xs \<and> JStr ''llmModel'' \<in> set xs)"
  by (cases xs) (simp_all add: llm_condition_def)

lemma llm_condition_number:
  assumes "truthy c" and "(\<exists>i. c = JInt i) \<or> (\<exists>b. c = JBool b) \<or> (\<exists>r. c = JFloat r)"
  shows "llm_condition c = Inl (TypeError ''in'' (type_name c))"
  using assms by (auto simp: llm_condition_def)

lemma make_engine_plain:
  assumes "\<forall>kvs. c \<noteq> JObj kvs" and "llm_condition c = Inr False"
    and "\<forall>a. MarkItDown_raises e a = None"
  shows "make_engine e c = Inr (MarkItDown (llm_mode_spec c))"
  unfolding make_engine_other [OF assms(1)] llm_mode_spec_other [OF assms(1)]
  using assms(2,3) by (simp add: new_MarkItDown_def)

text \<open>
  Claim C5, as amended. With \<open>llm_config\<close> the value the handler reads from the body
  (line 60), at the choice of the engine (lines 75 to 89): an engine that is constructed
  is the LLM-augmented one, with the client built from the API key and, when the key
  \<^verbatim>\<open>openaiBaseUrl\<close> is present, the base URL, and bound to the model, if and only if the
  configuration is an object that holds both \<^verbatim>\<open>openaiApiKey\<close> and \<^verbatim>\<open>llmModel\<close>; otherwise it
  is the plain engine. When no constructor raises, an engine is constructed whenever the
  configuration is absent, null or another falsy value, an object, or a string or list
  that does not contain both key names. When the configuration is a non-zero number or
  \<^verbatim>\<open>true\<close>, the test of line 75 raises TypeError; when it is a string or list that contains
  both key names, the subscript of line 77 raises TypeError; no engine is constructed
  then.
\<close>

theorem engine_mode:
  assumes "py_get payload ''llmConfig'' JNull = Inr llm_config"
  shows "(\<forall>md. make_engine e llm_config = Inr md \<longrightarrow> md = MarkItDown (llm_mode_spec llm_config)) \<and>
         ((\<not> truthy llm_config \<or> (\<exists>kvs. llm_config = JObj kvs) \<or>
           (\<exists>s. llm_config = JStr s \<and> \<not> (sublist ''openaiApiKey'' s \<and> sublist ''llmModel'' s)) \<or>
           (\<exists>xs. llm_config = JArr xs \<and>
                 \<not> (JStr ''openaiApiKey'' \<in> set xs \<and> JStr ''llmModel'' \<in> set xs))) \<and>
          (\<forall>kw. OpenAI_raises e kw = None) \<and> (\<forall>a. MarkItDown_raises e a = None)
            \<longrightarrow> make_engine e llm_config = Inr (MarkItDown (llm_mode_spec llm_config))) \<and>
         (truthy llm_config \<and>
          ((\<exists>i. llm_config = JInt i) \<or> (\<exists>b. llm_config = JBool b) \<or> (\<exists>r. llm_config = JFloat r))
            \<longrightarrow> make_engine e llm_config = Inl (TypeError ''in'' (type_name llm_config))) \<and>
         ((\<exists>s. llm_config = JStr s \<and> sublist ''openaiApiKey'' s \<and> sublist ''llmModel'' s) \<or>
          (\<exists>xs. llm_config = JArr xs \<and> JStr ''openaiApiKey'' \<in> set xs \<and> JStr ''llmModel'' \<in> set xs)
            \<longrightarrow> make_engine e llm_config = Inl (TypeError ''subscript'' (type_name llm_config)))"
proof (intro conjI allI impI)
  fix md
  assume "make_engine e llm_config = Inr md"
  then show "md = MarkItDown (llm_mode_spec llm_config)"
    by (rule make_engine_Inr)
next
  assume a: "(\<not> truthy llm_config \<or> (\<exists>kvs. llm_config = JObj kvs) \<or>
           (\<exists>s. llm_config = JStr s \<and> \<not> (sublist ''openaiApiKey'' s \<and> sublist ''llmModel'' s)) \<or>
           (\<exists>xs. llm_config = JArr xs \<and>
                 \<not> (JStr ''openaiApiKey'' \<in> set xs \<and> JStr ''llmModel'' \<in> set xs))) \<and>
          (\<forall>kw. OpenAI_raises e kw = None) \<and> (\<forall>a. MarkItDown_raises e a = None)"
  then have o: "\<forall>kw. OpenAI_raises e kw = None" and m: "\<forall>a. MarkItDown_raises e a = None"
    by simp_all
  show "make_engine e llm_config = Inr (MarkItDown (llm_mode_spec llm_config))"
  proof (cases "\<exists>kvs. llm_config = JObj kvs")
    case True
    then have "llm_config = JNull \<or> (\<exists>kvs. llm_config = JObj kvs)" by simp
    then show ?thesis using o m by (rule make_engine_no_raise)
  next
    case False
    then have n: "\<forall>kvs. llm_config \<noteq> JObj kvs" by blast
    from a False have "\<not> truthy llm_config \<or>
           (\<exists>s. llm_config = JStr s \<and> \<not> (sublist ''openaiApiKey'' s \<and> sublist ''llmModel'' s)) \<or>
           (\<exists>xs. llm_config = JArr xs \<and>
                 \<not> (JStr ''openaiApiKey'' \<in> set xs \<and> JStr ''llmModel'' \<in> set xs))"
      by blast
    then have "llm_condition llm_config = Inr False"
    proof (elim disjE exE conjE)
      assume "\<not> truthy llm_config"
      then show ?thesis by (rule llm_condition_falsy)
    next
      fix s
      assume "llm_config = JStr s" "\<not> (sublist ''openaiApiKey'' s \<and> sublist ''llmModel'' s)"
      then show ?thesis by (simp add: llm_condition_str)
    next
      fix xs
      assume "llm_config = JArr xs"
        "\<not> (JStr ''openaiApiKey'' \<in> set xs \<and> JStr ''llmModel'' \<in> set xs)"
      then show ?thesis by (simp add: llm_condition_list)
    qed
    with n show ?thesis using m by (rule make_engine_plain)
  qed
next
  assume a: "truthy llm_config \<and>
          ((\<exists>i. llm_config = JInt i) \<or> (\<exists>b. llm_config = JBool b) \<or> (\<exists>r. llm_config = JFloat r))"
  then have n: "\<forall>kvs. llm_config \<noteq> JObj kvs" by auto
  from a have "llm_condition llm_config = Inl (TypeError ''in'' (type_name llm_config))"
    using llm_condition_number by blast
  then show "make_engine e llm_config = Inl (TypeError ''in'' (type_name llm_config))"
    unfolding make_engine_other [OF n] by simp
next
  assume a: "(\<exists>s. llm_config = JStr s \<and> sublist ''openaiApiKey'' s \<and> sublist ''llmModel'' s) \<or>
          (\<exists>xs. llm_config = JArr xs \<and> JStr ''openaiApiKey'' \<in> set xs \<and> JStr ''llmModel'' \<in> set xs)"
  then have n: "\<forall>kvs. llm_config \<noteq> JObj kvs" by auto
  from a have "llm_condition llm_config = Inr True"
    by (auto simp: llm_condition_str llm_condition_list)
  then show "make_engine e llm_config = Inl (TypeError ''subscript'' (type_name llm_config))"
    unfolding make_engine_other [OF n] by simp
qed

theorem engine_mode_witness:
  "make_engine env0 llm_config0 =
     Inr (MarkItDown (Some (OpenAI [(''api_key'', JStr ''sk-1''),
                                    (''base_url'', JStr ''http://llm.example/v1'')],
                            JStr ''gpt-4o''))) \<and>
   make_engine env0 (JInt 5) = Inl (TypeError ''in'' ''int'')"
proof -
  have h: "py_get llm_request ''llmConfig'' JNull = Inr llm_config0"
    by (simp add: llm_request_def)
  have m: "llm_mode_spec llm_config0 =
      Some (OpenAI [(''api_key'', JStr ''sk-1''), (''base_url'', JStr ''http://llm.example/v1'')],
            JStr ''gpt-4o'')"
    by (simp add: llm_mode_spec_def llm_config0_def)
  have c: "(\<not> truthy llm_config0 \<or> (\<exists>kvs. llm_config0 = JObj kvs) \<or>
           (\<exists>s. llm_config0 = JStr s \<and> \<not> (sublist ''openaiApiKey'' s \<and> sublist ''llmModel'' s)) \<or>
           (\<exists>xs. llm_config0 = JArr xs \<and>
                 \<not> (JStr ''openaiApiKey'' \<in> set xs \<and> JStr ''llmModel'' \<in> set xs))) \<and>
          (\<forall>kw. OpenAI_raises env0 kw = None) \<and> (\<forall>a. MarkItDown_raises env0 a = None)"
    by (simp add: llm_config0_def env0_def)
  from engine_mode [OF h, of env0, THEN conjunct2, THEN conjunct1, rule_format, OF c]
  have 1: "make_engine env0 llm_config0 =
     Inr (MarkItDown (Some (OpenAI [(''api_key'', JStr ''sk-1''),
                                    (''base_url'', JStr ''http://llm.example/v1'')],
                            JStr ''gpt-4o'')))"
    unfolding m .
  have h5: "py_get number_request ''llmConfig'' JNull = Inr (JInt 5)"
    by (simp add: number_request_def)
  have c5: "truthy (JInt 5) \<and>
          ((\<exists>i. JInt 5 = JInt i) \<or> (\<exists>b. JInt 5 = JBool b) \<or> (\<exists>r. JInt 5 = JFloat r))"
    by simp
  from engine_mode [OF h5, of env0, THEN conjunct2, THEN conjunct2, THEN conjunct1, rule_format, OF c5]
  have 2: "make_engine env0 (JInt 5) = Inl (TypeError ''in'' ''int'')"
    by simp
  from 1 2 show ?thesis by (rule conjI)
qed

text \<open>
  The configuration \<^verbatim>\<open>5\<close> does not hold both keys, and no engine is constructed: the
  handler answers with the TypeError of line 75. A configuration that holds both keys
  gives no engine when the constructor of the client raises; and with an empty data
  array the handler answers at line 65, before it comes to the choice of the engine:
  the answer is not that of the raising constructor.
\<close>

theorem engine_mode_counterexample:
  "py_get number_request ''llmConfig'' JNull = Inr (JInt 5) \<and>
   make_engine env0 (JInt 5) = Inl (TypeError ''in'' ''int'') \<and>
   fst (convert_files env0 (Inr number_request) fs0) = (Error [E (TypeError ''in'' ''int'')], 500) \<and>
   make_engine env_no_key (JObj [(''openaiApiKey'', JNull), (''llmModel'', JStr ''gpt-4o'')])
     = Inl (LibraryError ''The api_key client option must be set either by passing api_key to the client or by setting the OPENAI_API_KEY environment variable'') \<and>
   convert_files env_no_key
       (Inr (JObj [(''llmConfig'', JObj [(''openaiApiKey'', JNull), (''llmModel'', JStr ''gpt-4o'')]),
                   (''data'', JArr [])])) fs0
     = ((Error [S ''No valid 'data' array provided''], 500), fs0)"
proof -
  have 1: "py_get number_request ''llmConfig'' JNull = Inr (JInt 5)"
    by (simp add: number_request_def)
  have 2: "make_engine env0 (JInt 5) = Inl (TypeError ''in'' ''int'')"
    by (simp add: make_engine_def llm_condition_def)
  have d: "py_get number_request ''data'' (JArr []) = Inr (JArr [entry ''a.txt'' ''aGVsbG8=''])"
    by (simp add: number_request_def)
  have ne: "[entry ''a.txt'' ''aGVsbG8=''] \<noteq> []" by simp
  from response_setup_raises [OF 1 d ne, of env0 fs0 "TypeError ''in'' ''int''" fs1,
      THEN conjunct2, rule_format] makedirs_env0 2
  have 3: "fst (convert_files env0 (Inr number_request) fs0) = (Error [E (TypeError ''in'' ''int'')], 500)"
    by blast
  have 4: "make_engine env_no_key (JObj [(''openaiApiKey'', JNull), (''llmModel'', JStr ''gpt-4o'')])
     = Inl (LibraryError ''The api_key client option must be set either by passing api_key to the client or by setting the OPENAI_API_KEY environment variable'')"
    by (simp add: make_engine_dict llm_mode_spec_def new_OpenAI_def env_no_key_def)
  have 5: "convert_files env_no_key
       (Inr (JObj [(''llmConfig'', JObj [(''openaiApiKey'', JNull), (''llmModel'', JStr ''gpt-4o'')]),
                   (''data'', JArr [])])) fs0
     = ((Error [S ''No valid 'data' array provided''], 500), fs0)"
    by (simp add: convert_files_def try_block_def cleanup_def)
  from 1 2 3 4 5 show ?thesis by blast
qed

section \<open>The first entry that fails decides the answer\<close>

lemma process_items_first_failure:
  assumes "\<forall>item \<in> set pre. \<exists>r. fst (process_item e md wd item t0) = Next r"
    and "same_dirs t0 t"
  shows "(\<forall>r. fst (process_item e md wd bad t0) = Return r \<longrightarrow>
            fst (process_items e md wd (pre @ bad # post) acc t) = Return r) \<and>
         (\<forall>x. fst (process_item e md wd bad t0) = Raise x \<longrightarrow>
            fst (process_items e md wd (pre @ bad # post) acc t) = Raise x)"
  using assms
proof (induction pre arbitrary: acc t)
  case Nil
  have "fst (process_item e md wd bad t0) = fst (process_item e md wd bad t)"
    using Nil.prems(2) by (rule process_item_flow)
  then show ?case
    by (cases "process_item e md wd bad t") auto
next
  case (Cons a pre)
  obtain f t1 where step: "process_item e md wd a t = (f, t1)"
    by (cases "process_item e md wd a t")
  have d: "same_dirs t0 t1"
    using process_item_same_dirs [of t e md wd a] step Cons.prems(2)
    by (auto intro: same_dirs_trans)
  have "fst (process_item e md wd a t0) = f"
    using process_item_flow [OF Cons.prems(2), of e md wd a] step by simp
  with Cons.prems(1) obtain r where f: "f = Next r" by auto
  from Cons.prems(1) have "\<forall>item \<in> set pre. \<exists>r. fst (process_item e md wd item t0) = Next r"
    by simp
  from Cons.IH [OF this d, of "acc @ [r]"] step f show ?case by simp
qed

lemma first_failure_response:
  assumes "py_get payload ''llmConfig'' JNull = Inr llm_config"
    and "py_get payload ''data'' (JArr []) = Inr (JArr (pre @ bad # post))"
    and "makedirs (cwd e) (working_dir e) t = (None, t1)"
    and "make_engine e llm_config = Inr md"
    and "\<forall>item \<in> set pre. \<exists>r. fst (process_item e md (working_dir e) item t1) = Next r"
  shows "(\<forall>r. fst (process_item e md (working_dir e) bad t1) = Return r \<longrightarrow>
            fst (convert_files e (Inr payload) t) = r) \<and>
         (\<forall>x. fst (process_item e md (working_dir e) bad t1) = Raise x \<longrightarrow>
            fst (convert_files e (Inr payload) t) = (Error [E x], 500))"
proof -
  have ne: "pre @ bad # post \<noteq> []" by simp
  note resp = response_valid [OF assms(1,2) ne assms(3,4)]
  note ff = process_items_first_failure [OF assms(5) same_dirs_refl, where bad = bad and post = post and acc = "[]"]
  show ?thesis
    unfolding resp using ff by simp
qed

lemma response_env0:
  assumes "items \<noteq> []"
  shows "fst (convert_files env0 (Inr (request items)) fs0) =
           (case fst (process_items env0 (MarkItDown None) dir0 items [] fs1) of
              Next results \<Rightarrow> (Results results, 200)
            | Return r \<Rightarrow> r
            | Raise x \<Rightarrow> (Error [E x], 500))"
  using response_valid [OF get_llmConfig_request get_data_request assms makedirs_env0 plain_env0]
  by (simp add: working_dir_env0)

text \<open>
  Claim C7, as amended. For every request whose body is an object with a \<^verbatim>\<open>data\<close> array
  holding an entry whose \<^verbatim>\<open>fileContent\<close> makes the decoder (\<^verbatim>\<open>base64.b64decode\<close>, whatever
  it is in the environment) raise, the handler answers with status 500 and an error
  object, with no result for any file. When the working
  directory and the engine were set up, every entry before it is processed successfully
  and the entry has a non-empty \<^verbatim>\<open>fileName\<close> and \<^verbatim>\<open>fileContent\<close>, the message is
  \<^verbatim>\<open>Failed to decode base64 for\<close> followed by that name and the decoder's error.
\<close>

theorem decode_failure_aborts:
  assumes "py_get payload ''data'' (JArr []) = Inr (JArr (pre @ bad # post))"
    and "py_get bad ''fileContent'' JNull = Inr fc"
    and "b64decode e fc = Inl x"
  shows "(\<exists>m. fst (convert_files e (Inr payload) t) = (Error m, 500)) \<and>
         (\<forall>llm_config t1 md fn.
            py_get payload ''llmConfig'' JNull = Inr llm_config \<and>
            makedirs (cwd e) (working_dir e) t = (None, t1) \<and>
            make_engine e llm_config = Inr md \<and>
            (\<forall>item \<in> set pre. \<exists>r. fst (process_item e md (working_dir e) item t1) = Next r) \<and>
            py_get bad ''fileName'' JNull = Inr fn \<and> truthy fn \<and> truthy fc
            \<longrightarrow> fst (convert_files e (Inr payload) t) =
                  (Error [S ''Failed to decode base64 for '', V fn, S '': '', E x], 500))"
proof (intro conjI allI impI)
  from py_get_object [OF assms(1)]
  obtain c where c: "py_get payload ''llmConfig'' JNull = Inr c" by blast
  have ne: "pre @ bad # post \<noteq> []" by simp
  from reached_or_raised [OF c assms(1) ne, of e t]
  show "\<exists>m. fst (convert_files e (Inr payload) t) = (Error m, 500)"
  proof
    assume "\<exists>x. fst (convert_files e (Inr payload) t) = (Error [E x], 500)"
    then show ?thesis by blast
  next
    assume "\<exists>t1 md. makedirs (cwd e) (working_dir e) t = (None, t1) \<and> make_engine e c = Inr md"
    then obtain t1 md where m: "makedirs (cwd e) (working_dir e) t = (None, t1)"
      and g: "make_engine e c = Inr md" by blast
    have "\<forall>r. fst (process_item e md (working_dir e) bad t1) \<noteq> Next r"
    proof (intro allI notI)
      fix r
      assume "fst (process_item e md (working_dir e) bad t1) = Next r"
      from process_item_Next [OF this] assms(2,3) show False by auto
    qed
    moreover have "bad \<in> set (pre @ bad # post)" by simp
    ultimately show ?thesis
      using failing_entry_response [OF c assms(1) m g] by blast
  qed
next
  fix llm_config t1 md fn
  assume a: "py_get payload ''llmConfig'' JNull = Inr llm_config \<and>
            makedirs (cwd e) (working_dir e) t = (None, t1) \<and>
            make_engine e llm_config = Inr md \<and>
            (\<forall>item \<in> set pre. \<exists>r. fst (process_item e md (working_dir e) item t1) = Next r) \<and>
            py_get bad ''fileName'' JNull = Inr fn \<and> truthy fn \<and> truthy fc"
  then have c: "py_get payload ''llmConfig'' JNull = Inr llm_config"
    and m: "makedirs (cwd e) (working_dir e) t = (None, t1)"
    and g: "make_engine e llm_config = Inr md"
    and pre: "\<forall>item \<in> set pre. \<exists>r. fst (process_item e md (working_dir e) item t1) = Next r"
    and fn: "py_get bad ''fileName'' JNull = Inr fn" and tr: "truthy fn" "truthy fc"
    by simp_all
  have "fst (process_item e md (working_dir e) bad t1) =
      Return (Error [S ''Failed to decode base64 for '', V fn, S '': '', E x], 500)"
    using process_item_decode [OF fn assms(2) tr assms(3)] by simp
  with first_failure_response [OF c assms(1) m g pre]
  show "fst (convert_files e (Inr payload) t) =
                (Error [S ''Failed to decode base64 for '', V fn, S '': '', E x], 500)"
    by simp
qed

theorem decode_failure_aborts_witness:
  "fst (convert_files env0
     (Inr (request [entry ''a.txt'' ''aGVsbG8='', entry ''b.txt'' ''abc'', entry ''c.txt'' ''aGk='']))
     fs0) =
   (Error [S ''Failed to decode base64 for '', V (JStr ''b.txt''), S '': '',
           E (LibraryError ''Incorrect padding'')], 500)"
proof -
  have h1: "py_get (request [entry ''a.txt'' ''aGVsbG8='', entry ''b.txt'' ''abc'', entry ''c.txt'' ''aGk=''])
      ''data'' (JArr []) =
      Inr (JArr ([entry ''a.txt'' ''aGVsbG8=''] @ entry ''b.txt'' ''abc'' # [entry ''c.txt'' ''aGk='']))"
    by (simp add: request_def)
  have h2: "py_get (entry ''b.txt'' ''abc'') ''fileContent'' JNull = Inr (JStr ''abc'')"
    by (simp add: entry_def)
  have h3: "b64decode env0 (JStr ''abc'') = Inl (LibraryError ''Incorrect padding'')"
    by (simp add: env0_def decode_abc)
  have n: "py_get (entry ''b.txt'' ''abc'') ''fileName'' JNull = Inr (JStr ''b.txt'')"
    by (simp add: entry_def)
  have p: "\<forall>item \<in> set [entry ''a.txt'' ''aGVsbG8=''].
              \<exists>r. fst (process_item env0 (MarkItDown None) (working_dir env0) item fs1) = Next r"
    by (simp add: working_dir_env0 item_a_txt)
  have c: "py_get (request [entry ''a.txt'' ''aGVsbG8='', entry ''b.txt'' ''abc'', entry ''c.txt'' ''aGk=''])
             ''llmConfig'' JNull = Inr JNull \<and>
           makedirs (cwd env0) (working_dir env0) fs0 = (None, fs1) \<and>
           make_engine env0 JNull = Inr (MarkItDown None) \<and>
           (\<forall>item \<in> set [entry ''a.txt'' ''aGVsbG8=''].
              \<exists>r. fst (process_item env0 (MarkItDown None) (working_dir env0) item fs1) = Next r) \<and>
           py_get (entry ''b.txt'' ''abc'') ''fileName'' JNull = Inr (JStr ''b.txt'') \<and>
           truthy (JStr ''b.txt'') \<and> truthy (JStr ''abc'')"
    using get_llmConfig_request makedirs_env0 plain_env0 p n by simp
  from decode_failure_aborts [OF h1 h2 h3, of fs0, THEN conjunct2, rule_format, OF c]
  show ?thesis .
qed

lemma decode_lenient: "base64_b64decode (JStr ''aGVsbG8=@@@'') = Inr ''hello''"
  by code_simp

text \<open>
  Content that is not valid base64 need not make the decoder raise: it skips the
  characters outside the alphabet, and the handler answers 200 with the decoded text.
  And the message need not name the entry with the bad content: in the second request
  the second entry does not decode, and the answer is the one for the first entry, which
  has no content.
\<close>

theorem decode_failure_counterexample:
  "\<not> valid_base64 ''aGVsbG8=@@@'' \<and>
   fst (convert_files env0 (Inr (request [entry ''a.txt'' ''aGVsbG8=@@@''])) fs0)
     = (Results [(JStr ''a.txt'', ''hello'')], 200) \<and>
   \<not> valid_base64 ''abc'' \<and>
   b64decode env0 (JStr ''abc'') = Inl (LibraryError ''Incorrect padding'') \<and>
   fst (convert_files env0
     (Inr (request [JObj [(''fileName'', JStr ''a.txt'')], entry ''b.txt'' ''abc''])) fs0)
     = (Error [S ''Missing fileName or fileContent''], 500)"
proof -
  have "fst (process_items env0 (MarkItDown None) dir0 [entry ''a.txt'' ''aGVsbG8=@@@''] [] fs1)
      = Next [(JStr ''a.txt'', ''hello'')]"
    by (simp add: process_item_def entry_def env0_def decode_lenient path_join_def dir0_def
      open_wb_def has_nul_def resolve_def start_dir_def fs1_def fs0_def)
  then have 1: "fst (convert_files env0 (Inr (request [entry ''a.txt'' ''aGVsbG8=@@@''])) fs0)
     = (Results [(JStr ''a.txt'', ''hello'')], 200)"
    by (simp add: response_env0)
  have "fst (process_items env0 (MarkItDown None) dir0
      [JObj [(''fileName'', JStr ''a.txt'')], entry ''b.txt'' ''abc''] [] fs1)
      = Return (Error [S ''Missing fileName or fileContent''], 500)"
    by (simp add: process_item_def)
  then have 2: "fst (convert_files env0
     (Inr (request [JObj [(''fileName'', JStr ''a.txt'')], entry ''b.txt'' ''abc''])) fs0)
     = (Error [S ''Missing fileName or fileContent''], 500)"
    by (simp add: response_env0)
  have 3: "\<not> valid_base64 ''aGVsbG8=@@@''" by (simp add: valid_base64_def)
  have 4: "\<not> valid_base64 ''abc''" by (simp add: valid_base64_def)
  have 5: "b64decode env0 (JStr ''abc'') = Inl (LibraryError ''Incorrect padding'')"
    by (simp add: env0_def decode_abc)
  from 1 2 3 4 5 show ?thesis by blast
qed

text \<open>
  Claim C9, as amended. When an element of the data array is not a JSON object and no
  element before it makes the handler return one of its per-file error responses (a
  missing field, a decode failure, a conversion failure), the handler answers with
  status 500 and the text of the exception that was raised, formatted by the except
  clause of line 132, not with \<^verbatim>\<open>Missing fileName or fileContent\<close>. When the loop is
  reached and every element before it is processed successfully, that exception is the
  AttributeError that \<^verbatim>\<open>item.get\<close> raises for the type of the element.
\<close>

theorem non_object_entry:
  assumes "py_get payload ''data'' (JArr []) = Inr (JArr (pre @ bad # post))"
    and "\<forall>kvs. bad \<noteq> JObj kvs"
    and "\<forall>llm_config t1 md.
           py_get payload ''llmConfig'' JNull = Inr llm_config \<and>
           makedirs (cwd e) (working_dir e) t = (None, t1) \<and>
           make_engine e llm_config = Inr md
           \<longrightarrow> (\<forall>item \<in> set pre. \<forall>r. fst (process_item e md (working_dir e) item t1) \<noteq> Return r)"
  shows "(\<exists>x. fst (convert_files e (Inr payload) t) = (Error [E x], 500)) \<and>
         fst (convert_files e (Inr payload) t) \<noteq> (Error [S ''Missing fileName or fileContent''], 500) \<and>
         (\<forall>llm_config t1 md.
            py_get payload ''llmConfig'' JNull = Inr llm_config \<and>
            makedirs (cwd e) (working_dir e) t = (None, t1) \<and>
            make_engine e llm_config = Inr md \<and>
            (\<forall>item \<in> set pre. \<exists>r. fst (process_item e md (working_dir e) item t1) = Next r)
            \<longrightarrow> fst (convert_files e (Inr payload) t) =
                  (Error [E (AttributeError (type_name bad) ''get'')], 500))"
proof -
  have bad: "fst (process_item e md (working_dir e) bad t1) = Raise (AttributeError (type_name bad) ''get'')"
    for md t1
  proof -
    from assms(2) have "py_get bad ''fileName'' JNull = Inl (AttributeError (type_name bad) ''get'')"
      by (cases bad) simp_all
    then show ?thesis by (simp add: process_item_def)
  qed
  have ne: "pre @ bad # post \<noteq> []" by simp
  have reached: "\<exists>x. fst (convert_files e (Inr payload) t) = (Error [E x], 500)"
    if c: "py_get payload ''llmConfig'' JNull = Inr llm_config"
      and m: "makedirs (cwd e) (working_dir e) t = (None, t1)"
      and g: "make_engine e llm_config = Inr md" for llm_config t1 md
  proof -
    from assms(3) c m g
    have pre: "\<forall>item \<in> set pre. \<forall>r. fst (process_item e md (working_dir e) item t1) \<noteq> Return r"
      by blast
    have nb: "\<forall>r. fst (process_item e md (working_dir e) bad t1) \<noteq> Next r"
      by (simp add: bad)
    have cutl: "process_items e md (working_dir e) (pre @ bad # post) [] t1
        = process_items e md (working_dir e) (pre @ [bad]) [] t1"
      using nb same_dirs_refl by (rule process_items_stops)
    have "\<forall>item \<in> set (pre @ [bad]). \<forall>r. fst (process_item e md (working_dir e) item t1) \<noteq> Return r"
      using pre by (simp add: bad)
    then have nr: "\<And>r. fst (process_items e md (working_dir e) (pre @ bad # post) [] t1) \<noteq> Return r"
      unfolding cutl using same_dirs_refl by (rule process_items_no_Return)
    have "bad \<in> set (pre @ bad # post)" by simp
    then have nn: "\<And>rs. fst (process_items e md (working_dir e) (pre @ bad # post) [] t1) \<noteq> Next rs"
      using nb same_dirs_refl by (rule process_items_not_Next)
    show ?thesis
    proof (cases "fst (process_items e md (working_dir e) (pre @ bad # post) [] t1)")
      case (Next rs)
      with nn show ?thesis by blast
    next
      case (Return r)
      with nr show ?thesis by blast
    next
      case (Raise x)
      then show ?thesis
        unfolding response_valid [OF c assms(1) ne m g] by simp
    qed
  qed
  from py_get_object [OF assms(1)]
  obtain c where c: "py_get payload ''llmConfig'' JNull = Inr c" by blast
  from reached_or_raised [OF c assms(1) ne, of e t] reached [OF c]
  have ex: "\<exists>x. fst (convert_files e (Inr payload) t) = (Error [E x], 500)"
    by blast
  then have nm: "fst (convert_files e (Inr payload) t) \<noteq> (Error [S ''Missing fileName or fileContent''], 500)"
    by auto
  have spec: "fst (convert_files e (Inr payload) t) =
                  (Error [E (AttributeError (type_name bad) ''get'')], 500)"
    if a: "py_get payload ''llmConfig'' JNull = Inr llm_config \<and>
            makedirs (cwd e) (working_dir e) t = (None, t1) \<and>
            make_engine e llm_config = Inr md \<and>
            (\<forall>item \<in> set pre. \<exists>r. fst (process_item e md (working_dir e) item t1) = Next r)"
    for llm_config t1 md
  proof -
    from a have c': "py_get payload ''llmConfig'' JNull = Inr llm_config"
      and m: "makedirs (cwd e) (working_dir e) t = (None, t1)"
      and g: "make_engine e llm_config = Inr md"
      and pre: "\<forall>item \<in> set pre. \<exists>r. fst (process_item e md (working_dir e) item t1) = Next r"
      by simp_all
    from first_failure_response [OF c' assms(1) m g pre] bad [of md t1]
    show ?thesis by simp
  qed
  from ex nm spec show ?thesis by blast
qed

theorem non_object_entry_witness:
  "fst (convert_files env0
     (Inr (request [entry ''a.txt'' ''aGVsbG8='', JInt 5, entry ''c.txt'' ''aGk=''])) fs0)
     = (Error [E (AttributeError ''int'' ''get'')], 500)"
proof -
  have h1: "py_get (request [entry ''a.txt'' ''aGVsbG8='', JInt 5, entry ''c.txt'' ''aGk=''])
      ''data'' (JArr []) =
      Inr (JArr ([entry ''a.txt'' ''aGVsbG8=''] @ JInt 5 # [entry ''c.txt'' ''aGk='']))"
    by (simp add: request_def)
  have h2: "\<forall>kvs. JInt 5 \<noteq> JObj kvs" by simp
  have h3: "\<forall>llm_config t1 md.
           py_get (request [entry ''a.txt'' ''aGVsbG8='', JInt 5, entry ''c.txt'' ''aGk=''])
             ''llmConfig'' JNull = Inr llm_config \<and>
           makedirs (cwd env0) (working_dir env0) fs0 = (None, t1) \<and>
           make_engine env0 llm_config = Inr md
           \<longrightarrow> (\<forall>item \<in> set [entry ''a.txt'' ''aGVsbG8=''].
                 \<forall>r. fst (process_item env0 md (working_dir env0) item t1) \<noteq> Return r)"
  proof (intro allI impI ballI)
    fix llm_config t1 md item r
    assume a: "py_get (request [entry ''a.txt'' ''aGVsbG8='', JInt 5, entry ''c.txt'' ''aGk=''])
             ''llmConfig'' JNull = Inr llm_config \<and>
           makedirs (cwd env0) (working_dir env0) fs0 = (None, t1) \<and>
           make_engine env0 llm_config = Inr md"
      and i: "item \<in> set [entry ''a.txt'' ''aGVsbG8='']"
    from a have "llm_config = JNull" by (simp add: get_llmConfig_request)
    with a have "md = MarkItDown None" by (simp add: plain_env0)
    moreover from a have "t1 = fs1" by (simp add: makedirs_env0)
    moreover from i have "item = entry ''a.txt'' ''aGVsbG8=''" by simp
    ultimately show "fst (process_item env0 md (working_dir env0) item t1) \<noteq> Return r"
      by (simp add: working_dir_env0 item_a_txt)
  qed
  have p: "\<forall>item \<in> set [entry ''a.txt'' ''aGVsbG8=''].
              \<exists>r. fst (process_item env0 (MarkItDown None) (working_dir env0) item fs1) = Next r"
    by (simp add: working_dir_env0 item_a_txt)
  have c: "py_get (request [entry ''a.txt'' ''aGVsbG8='', JInt 5, entry ''c.txt'' ''aGk=''])
             ''llmConfig'' JNull = Inr JNull \<and>
           makedirs (cwd env0) (working_dir env0) fs0 = (None, fs1) \<and>
           make_engine env0 JNull = Inr (MarkItDown None) \<and>
           (\<forall>item \<in> set [entry ''a.txt'' ''aGVsbG8=''].
              \<exists>r. fst (process_item env0 (MarkItDown None) (working_dir env0) item fs1) = Next r)"
    using get_llmConfig_request makedirs_env0 plain_env0 p by simp
  from non_object_entry [OF h1 h2 h3, THEN conjunct2, THEN conjunct2, rule_format, OF c]
  show ?thesis by simp
qed

text \<open>
  An element that is not an object does not decide the answer when an entry before it
  fails: here the first entry has no content, and the answer is the message for it.
\<close>

theorem non_object_entry_counterexample:
  "fst (convert_files env0 (Inr (request [JObj [(''fileName'', JStr ''a.txt'')], JInt 5])) fs0)
     = (Error [S ''Missing fileName or fileContent''], 500)"
proof -
  have "fst (process_items env0 (MarkItDown None) dir0
      [JObj [(''fileName'', JStr ''a.txt'')], JInt 5] [] fs1)
      = Return (Error [S ''Missing fileName or fileContent''], 500)"
    by (simp add: process_item_def)
  then show ?thesis
    by (simp add: response_env0)
qed

section \<open>A file name that is an absolute path\<close>

lemma path_join_absolute: "name \<noteq> [] \<Longrightarrow> hd name = CHR ''/'' \<Longrightarrow> path_join wd name = name"
  by (simp add: path_join_def)

lemma open_wb_writes:
  assumes "\<not> has_nul s" and "resolve t c s = Some p" and "t p \<noteq> Some Dir"
  shows "open_wb c s d t = (None, t(p \<mapsto> File d))"
  using assms by (simp add: open_wb_def split: option.splits node.splits)

lemma process_item_written:
  assumes "py_get item ''fileName'' JNull = Inr (JStr name)"
    and "name \<noteq> []"
    and "py_get item ''fileContent'' JNull = Inr fc" and "truthy fc"
    and "b64decode e fc = Inr d"
    and "open_wb (cwd e) (path_join wd name) d t = (None, t')"
  shows "snd (process_item e md wd item t) = t' \<and>
         (\<forall>x. fst (process_item e md wd item t) \<noteq> Raise x)"
  using assms by (simp add: process_item_def split: sum.splits)

lemma cleanup_keeps:
  assumes "rmtree e = rmtree_ok (cwd e)"
    and "\<forall>w. resolve t (cwd e) wd = Some w \<longrightarrow> \<not> prefix w p"
  shows "cleanup e (Some wd) t p = t p"
  using assms
  by (simp add: cleanup_def rmtree_ok_def split: option.splits node.splits)

text \<open>
  Claim C10. For an entry whose \<^verbatim>\<open>fileName\<close> is an absolute path, \<^verbatim>\<open>os.path.join\<close> drops
  the working directory and gives the name itself, so the decoded bytes are written to
  that path. When the path lies outside the working directory, the removal of the
  working directory at the end of the request does not touch it: the file is still
  there, with those bytes, in the file system the handler leaves behind, whether the
  conversion succeeded or not.
\<close>

theorem absolute_name_escapes:
  assumes "py_get payload ''llmConfig'' JNull = Inr llm_config"
    and "py_get payload ''data'' (JArr []) = Inr (JArr [item])"
    and "makedirs (cwd e) (working_dir e) t = (None, t1)"
    and "make_engine e llm_config = Inr md"
    and "py_get item ''fileName'' JNull = Inr (JStr name)"
    and "name \<noteq> [] \<and> hd name = CHR ''/''"
    and "py_get item ''fileContent'' JNull = Inr fc" and "truthy fc"
    and "b64decode e fc = Inr d"
    and "\<not> has_nul name" and "resolve t1 (cwd e) name = Some p" and "t1 p \<noteq> Some Dir"
    and "\<forall>w. resolve t1 (cwd e) (working_dir e) = Some w \<longrightarrow> \<not> prefix w p"
    and "rmtree e = rmtree_ok (cwd e)"
  shows "os_path_join (working_dir e) (JStr name) = Inr name \<and>
         snd (convert_files e (Inr payload) t) p = Some (File d)"
proof -
  from assms(6) have j: "path_join (working_dir e) name = name"
    by (simp add: path_join_absolute)
  let ?t2 = "t1(p \<mapsto> File d)"
  have w: "open_wb (cwd e) (path_join (working_dir e) name) d t1 = (None, ?t2)"
    unfolding j using assms(10,11,12) by (rule open_wb_writes)
  from assms(6) have ne: "name \<noteq> []" by simp
  note pi = process_item_written [OF assms(5) ne assms(7,8,9) w, of md]
  have sd: "same_dirs t1 ?t2"
    using assms(12) by (simp add: same_dirs_def)
  have tb: "\<exists>r. try_block e (Inr payload) t = (r, Some (working_dir e), ?t2)"
  proof -
    obtain f t' where st: "process_item e md (working_dir e) item t1 = (f, t')"
      by (cases "process_item e md (working_dir e) item t1")
    with pi have t': "t' = ?t2" and f: "\<forall>x. f \<noteq> Raise x" by simp_all
    have ne1: "[item] \<noteq> []" by simp
    show ?thesis
      unfolding try_block_valid [OF assms(1,2) ne1]
      using assms(3,4) st t' f by (cases f) simp_all
  qed
  then obtain r where tb': "try_block e (Inr payload) t = (r, Some (working_dir e), ?t2)"
    by blast
  have fin: "snd (convert_files e (Inr payload) t) = cleanup e (Some (working_dir e)) ?t2"
    using tb' by (cases r) (simp_all add: convert_files_def)
  have "\<forall>w. resolve ?t2 (cwd e) (working_dir e) = Some w \<longrightarrow> \<not> prefix w p"
    using assms(13) resolve_same_dirs [OF sd] by simp
  with assms(14) have "cleanup e (Some (working_dir e)) ?t2 p = ?t2 p"
    by (rule cleanup_keeps)
  with fin have "snd (convert_files e (Inr payload) t) p = Some (File d)"
    by simp
  with j show ?thesis by simp
qed

theorem absolute_name_escapes_witness:
  "os_path_join (working_dir env0) (JStr ''/srv/evil.txt'') = Inr ''/srv/evil.txt'' \<and>
   snd (convert_files env0 (Inr (request [entry ''/srv/evil.txt'' ''aGVsbG8=''])) fs0)
     [''srv'', ''evil.txt''] = Some (File ''hello'') \<and>
   \<not> prefix [''tmp'', ''123e4567-e89b-42d3-a456-426614174000''] [''srv'', ''evil.txt'']"
proof -
  have h5: "py_get (entry ''/srv/evil.txt'' ''aGVsbG8='') ''fileName'' JNull = Inr (JStr ''/srv/evil.txt'')"
    by (simp add: entry_def)
  have h6: "''/srv/evil.txt'' \<noteq> [] \<and> hd ''/srv/evil.txt'' = CHR ''/''" by simp
  have h7: "py_get (entry ''/srv/evil.txt'' ''aGVsbG8='') ''fileContent'' JNull = Inr (JStr ''aGVsbG8='')"
    by (simp add: entry_def)
  have h8: "truthy (JStr ''aGVsbG8='')" by simp
  have h9: "b64decode env0 (JStr ''aGVsbG8='') = Inr ''hello''"
    by (simp add: env0_def decode_hello decode_hi decode_abc)
  have h10: "\<not> has_nul ''/srv/evil.txt''" by (simp add: has_nul_def)
  have h11: "resolve fs1 (cwd env0) ''/srv/evil.txt'' = Some [''srv'', ''evil.txt'']"
    by (simp add: resolve_def start_dir_def fs1_def fs0_def env0_def)
  have h12: "fs1 [''srv'', ''evil.txt''] \<noteq> Some Dir"
    by (simp add: fs1_def fs0_def)
  have r: "resolve fs1 (cwd env0) (working_dir env0)
      = Some [''tmp'', ''123e4567-e89b-42d3-a456-426614174000'']"
    by (simp add: working_dir_env0 resolve_def split_dir0 start_dir_def)
       (simp add: dir0_def fs1_def fs0_def)
  have h13: "\<forall>w. resolve fs1 (cwd env0) (working_dir env0) = Some w
      \<longrightarrow> \<not> prefix w [''srv'', ''evil.txt'']"
    unfolding r by simp
  have h14: "rmtree env0 = rmtree_ok (cwd env0)" by (simp add: env0_def)
  from absolute_name_escapes [OF get_llmConfig_request get_data_request makedirs_env0 plain_env0
      h5 h6 h7 h8 h9 h10 h11 h12 h13 h14]
  show ?thesis by simp
qed

end
